theory Spec2Isabelle
  imports Complex_Main
begin

section \<open>Workload saturation calculator: embedding of core/data_processor.py\<close>

text \<open>
  The embedding follows \<^verbatim>\<open>WorkloadDataProcessor\<close> (core/data_processor.py) and
  \<^verbatim>\<open>DataValidator.validate_config\<close> (utils/validators.py).

  Numbers: a Python \<^verbatim>\<open>float\<close> is modelled by the real number it denotes, and every
  arithmetic operation of the code by the exact operation followed by the rounding to the
  nearest double (see the section on floating-point arithmetic); the one non-finite value
  the code creates itself, \<^verbatim>\<open>float('inf')\<close>, is a constructor of its own. Exceptions
  are values of the type \<open>error\<close>.
\<close>

subsection \<open>Errors\<close>

datatype error = KeyError string | TypeError | OverflowError | ZeroDivisionError

definition bind_result :: "error + 'a \<Rightarrow> ('a \<Rightarrow> error + 'b) \<Rightarrow> error + 'b" where
  "bind_result m f = (case m of Inl e \<Rightarrow> Inl e | Inr x \<Rightarrow> f x)"

text \<open>A \<^verbatim>\<open>for\<close> loop that appends one value per element and stops at the first raise.\<close>

fun map_result :: "('a \<Rightarrow> error + 'b) \<Rightarrow> 'a list \<Rightarrow> error + 'b list" where
  "map_result f [] = Inr []"
| "map_result f (x # xs) =
     (case f x of
        Inl e \<Rightarrow> Inl e
      | Inr y \<Rightarrow> (case map_result f xs of Inl e \<Rightarrow> Inl e | Inr ys \<Rightarrow> Inr (y # ys)))"

subsection \<open>Floating-point arithmetic\<close>

text \<open>
  A Python \<^verbatim>\<open>float\<close> is an IEEE 754 double: a significand of 53 bits times a power of
  two. The result of \<^verbatim>\<open>+\<close>, \<^verbatim>\<open>-\<close>, \<^verbatim>\<open>*\<close> and \<^verbatim>\<open>/\<close> is the exact result
  rounded to the nearest double, a tie going to the even significand. \<open>fl\<close> is this
  rounding: the value is scaled so that its significand has 53 bits (the exponent is
  the floor of the binary logarithm of the magnitude, and at least -1022, below which
  doubles are subnormal), rounded to an integer and scaled back. A number of the
  configuration or of a cell is the real number it denotes (an integer of Python, far
  below \<open>2 ^ 53\<close>, converts exactly); the operations round their results. The exponent
  has no upper bound here: a result of magnitude \<open>2 ^ 1024\<close> or more, which Python
  turns into \<^verbatim>\<open>inf\<close>, is not a number of hours and is outside the model, as are
  cells holding \<^verbatim>\<open>inf\<close> themselves.
\<close>

definition pow2 :: "int \<Rightarrow> real" where
  "pow2 k = (if 0 \<le> k then 2 ^ nat k else 1 / 2 ^ nat (- k))"

definition round_half_even :: "real \<Rightarrow> int" where
  "round_half_even y =
     (let f = \<lfloor>y\<rfloor>; d = y - of_int f
      in if d < 1 / 2 then f else if 1 / 2 < d then f + 1
         else if even f then f else f + 1)"

definition float_exponent :: "real \<Rightarrow> int" where
  "float_exponent x = max \<lfloor>log 2 \<bar>x\<bar>\<rfloor> (- 1022)"

definition fl :: "real \<Rightarrow> real" where
  "fl x = of_int (round_half_even (x / pow2 (float_exponent x - 52)))
            * pow2 (float_exponent x - 52)"

definition fadd :: "real \<Rightarrow> real \<Rightarrow> real" where
  "fadd a b = fl (a + b)"

definition fsub :: "real \<Rightarrow> real \<Rightarrow> real" where
  "fsub a b = fl (a - b)"

definition fmul :: "real \<Rightarrow> real \<Rightarrow> real" where
  "fmul a b = fl (a * b)"

definition fdiv :: "real \<Rightarrow> real \<Rightarrow> real" where
  "fdiv a b = fl (a / b)"

text \<open>\<^verbatim>\<open>a / b\<close>: division by zero raises.\<close>

definition py_div :: "real \<Rightarrow> real \<Rightarrow> error + real" where
  "py_div a b = (if b = 0 then Inl ZeroDivisionError else Inr (fdiv a b))"

text \<open>
  \<^verbatim>\<open>round(x, 1)\<close>: the decimal with one digit after the point nearest to the exact value
  of \<open>x\<close>, a tie going to the even digit, converted back to the nearest double.
\<close>

definition py_round1 :: "real \<Rightarrow> real" where
  "py_round1 x = fl (of_int (round_half_even (x * 10)) / 10)"

subsection \<open>Configuration dictionary and \<^verbatim>\<open>__init__\<close>\<close>

text \<open>
  The configuration is a nested dictionary read with \<^verbatim>\<open>.get(key, default)\<close>; a key that
  is absent is \<open>None\<close>.
\<close>

record other_tasks_dict =
  ot_enabled :: "bool option"
  ot_weekly_minutes_per_person :: "real option"

record primary_responsibility_dict =
  pr_enabled :: "bool option"
  pr_weekly_percentage :: "real option"

record saturation_thresholds_dict =
  th_under_saturated_max :: "real option"
  th_normal_min :: "real option"
  th_normal_max :: "real option"
  th_over_saturated_min :: "real option"

record config =
  standard_hours_per_week :: "real option"
  other_tasks :: "other_tasks_dict option"
  primary_responsibility :: "primary_responsibility_dict option"
  saturation_thresholds :: "saturation_thresholds_dict option"

text \<open>\<^verbatim>\<open>d.get(key, default)\<close> on an optional entry.\<close>

definition dict_get :: "'a option \<Rightarrow> 'a \<Rightarrow> 'a" where
  "dict_get entry dflt = (case entry of None \<Rightarrow> dflt | Some v \<Rightarrow> v)"

text \<open>\<^verbatim>\<open>config.get(outer, {}).get(inner, default)\<close>.\<close>

definition dict_get2 :: "'d option \<Rightarrow> ('d \<Rightarrow> 'a option) \<Rightarrow> 'a \<Rightarrow> 'a" where
  "dict_get2 outer inner dflt = (case outer of None \<Rightarrow> dflt | Some d \<Rightarrow> dict_get (inner d) dflt)"

text \<open>The attributes \<^verbatim>\<open>__init__\<close> sets on \<^verbatim>\<open>self\<close>.\<close>

record processor =
  standard_hours :: real
  other_tasks_enabled :: bool
  other_tasks_minutes :: real
  other_tasks_hours :: real
  primary_responsibility_enabled :: bool
  primary_responsibility_percentage :: real
  primary_responsibility_hours :: real
  under_saturated_max :: real
  normal_max :: real

definition init :: "config \<Rightarrow> processor" where
  "init cfg =
     (let sh = dict_get (standard_hours_per_week cfg) 40;
          ote = dict_get2 (other_tasks cfg) ot_enabled True;
          otm = dict_get2 (other_tasks cfg) ot_weekly_minutes_per_person 92;
          pre = dict_get2 (primary_responsibility cfg) pr_enabled True;
          prp = dict_get2 (primary_responsibility cfg) pr_weekly_percentage (1 / 2)
      in \<lparr> standard_hours = sh,
           other_tasks_enabled = ote,
           other_tasks_minutes = otm,
           other_tasks_hours = (if ote then fdiv otm 60 else 0),
           primary_responsibility_enabled = pre,
           primary_responsibility_percentage = prp,
           primary_responsibility_hours = (if pre then fmul sh prp else 0),
           under_saturated_max = dict_get2 (saturation_thresholds cfg) th_under_saturated_max 90,
           normal_max = dict_get2 (saturation_thresholds cfg) th_normal_max 110 \<rparr>)"

subsection \<open>Status classification (\<^verbatim>\<open>get_status\<close>)\<close>

text \<open>
  The four labels the code returns as strings: idle, under-saturated, normal, overloaded
  (in the source the Chinese words for them).
\<close>

datatype status = Idle | Under_saturated | Normal | Overloaded

definition get_status :: "processor \<Rightarrow> real \<Rightarrow> status" where
  "get_status self saturation =
     (if saturation = 0 then Idle
      else if saturation < under_saturated_max self then Under_saturated
      else if saturation \<le> normal_max self then Normal
      else Overloaded)"

subsection \<open>Dates and \<^verbatim>\<open>get_week_range\<close>\<close>

text \<open>
  A \<^verbatim>\<open>datetime.date\<close> is modelled by its proleptic Gregorian ordinal
  (\<^verbatim>\<open>date.toordinal()\<close>): 1 is 0001-01-01 and 3652059 is 9999-12-31
  (\<^verbatim>\<open>date.max\<close>). Python's date arithmetic works on the ordinal and raises
  \<^verbatim>\<open>OverflowError\<close> when the result leaves that range; \<^verbatim>\<open>weekday()\<close> is
  \<^verbatim>\<open>(toordinal() + 6) % 7\<close>, 0 for Monday.
\<close>

type_synonym date = int

definition MAXORDINAL :: int where
  "MAXORDINAL = 3652059"

definition valid_date :: "date \<Rightarrow> bool" where
  "valid_date d \<longleftrightarrow> 1 \<le> d \<and> d \<le> MAXORDINAL"

definition weekday :: "date \<Rightarrow> int" where
  "weekday d = (d + 6) mod 7"

text \<open>\<^verbatim>\<open>timedelta(days=n)\<close>: at most 999999999 days in either direction.\<close>

definition timedelta :: "int \<Rightarrow> error + int" where
  "timedelta days = (if \<bar>days\<bar> \<le> 999999999 then Inr days else Inl OverflowError)"

text \<open>\<^verbatim>\<open>date + timedelta\<close>; \<^verbatim>\<open>date - timedelta\<close> adds the negated days.\<close>

definition date_add :: "date \<Rightarrow> int \<Rightarrow> error + date" where
  "date_add d n =
     (let ordinal = d + n
      in if 0 < ordinal \<and> ordinal \<le> MAXORDINAL then Inr ordinal else Inl OverflowError)"

definition get_week_range :: "date \<Rightarrow> int \<Rightarrow> error + (date \<times> date)" where
  "get_week_range base_date weeks_offset =
     bind_result (timedelta (weekday base_date)) (\<lambda>back.
     bind_result (date_add base_date (- back)) (\<lambda>current_monday.
     bind_result (timedelta (7 * weeks_offset)) (\<lambda>weeks.
     bind_result (date_add current_monday weeks) (\<lambda>target_monday.
     bind_result (timedelta 6) (\<lambda>six.
     bind_result (date_add target_monday six) (\<lambda>target_sunday.
     Inr (target_monday, target_sunday)))))))"

subsection \<open>The input table\<close>

text \<open>
  A DataFrame: its column labels and its rows, each row holding one cell per column. A
  cell is a string, a number or missing (NaN). The theorems that read cells by label
  assume what \<^verbatim>\<open>read_excel\<close> guarantees: the labels are distinct.
\<close>

datatype cell = Str string | Num real | NaN

record dataframe =
  columns :: "string list"
  rows :: "cell list list"

text \<open>The label of the member column, two Chinese characters, as its UTF-8 bytes.\<close>

definition member_col :: string where
  "member_col = [CHR 0xE6, CHR 0x88, CHR 0x90, CHR 0xE5, CHR 0x91, CHR 0x98]"

text \<open>The label of the result column the rows are sorted by (next week's saturation).\<close>

definition next_week_saturation_col :: string where
  "next_week_saturation_col =
     [CHR 0xE4, CHR 0xB8, CHR 0x8B, CHR 0xE5, CHR 0x91, CHR 0xA8, CHR 0xE9, CHR 0xA5, CHR 0xB1,
      CHR 0xE5, CHR 0x92, CHR 0x8C, CHR 0xE5, CHR 0xBA, CHR 0xA6, CHR 0x28, CHR 0x25, CHR 0x29]"

text \<open>\<^verbatim>\<open>row[label]\<close>: \<^verbatim>\<open>KeyError\<close> when no column has the label.\<close>

definition row_get :: "string list \<Rightarrow> cell list \<Rightarrow> string \<Rightarrow> error + cell" where
  "row_get cols row label =
     (case map_of (zip cols row) label of None \<Rightarrow> Inl (KeyError label) | Some c \<Rightarrow> Inr c)"

text \<open>
  \<^verbatim>\<open>Series.sum()\<close> of the selected cells (a row of a table with a string column holds
  Python objects): a missing cell counts as 0, a string among the cells cannot be added
  (\<^verbatim>\<open>TypeError\<close>), and the values are added from left to right, each addition rounded.
\<close>

fun cell_values :: "cell list \<Rightarrow> error + real list" where
  "cell_values [] = Inr []"
| "cell_values (Str s # cs) = Inl TypeError"
| "cell_values (Num h # cs) = bind_result (cell_values cs) (\<lambda>vs. Inr (h # vs))"
| "cell_values (NaN # cs) = bind_result (cell_values cs) (\<lambda>vs. Inr (0 # vs))"

definition float_sum :: "real list \<Rightarrow> real" where
  "float_sum vs = (case vs of [] \<Rightarrow> 0 | v # rest \<Rightarrow> foldl fadd v rest)"

definition cell_sum :: "cell list \<Rightarrow> error + real" where
  "cell_sum cs = bind_result (cell_values cs) (\<lambda>vs. Inr (float_sum vs))"

text \<open>\<^verbatim>\<open>row[week_cols].sum() if week_cols else 0\<close>.\<close>

definition project_hours_of :: "string list \<Rightarrow> cell list \<Rightarrow> string list \<Rightarrow> error + real" where
  "project_hours_of cols row week_columns =
     (if week_columns \<noteq> [] then bind_result (map_result (row_get cols row) week_columns) cell_sum
      else Inr 0)"

text \<open>
  The date columns are all columns but the first. \<^verbatim>\<open>strptime\<close> is the library's parser
  of a label in the form YYYY-MM-DD, a parameter here: \<open>None\<close> is the \<^verbatim>\<open>except\<close>
  branch. A week's columns are the date columns whose label parses to a date inside the
  week, bounds included.
\<close>

definition in_week :: "date option \<Rightarrow> date \<Rightarrow> date \<Rightarrow> bool" where
  "in_week parsed week_start week_end =
     (case parsed of None \<Rightarrow> False | Some d \<Rightarrow> week_start \<le> d \<and> d \<le> week_end)"

definition week_cols :: "(string \<Rightarrow> date option) \<Rightarrow> string list \<Rightarrow> date \<Rightarrow> date \<Rightarrow> string list" where
  "week_cols strptime cols week_start week_end =
     filter (\<lambda>label. in_week (strptime label) week_start week_end) (drop 1 cols)"

subsection \<open>The per-member computation (the body of the loop of \<^verbatim>\<open>calculate_workload\<close>)\<close>

datatype pyfloat = Finite real | Infinity

text \<open>
  The source computes each of the three weeks with the same four statements, on that
  week's columns: project hours, other tasks, total hours, saturation.
\<close>

record week_locals =
  project_hours :: real
  other_tasks_of_week :: real
  total_hours :: real
  saturation :: real

definition week_block ::
  "processor \<Rightarrow> string list \<Rightarrow> cell list \<Rightarrow> string list \<Rightarrow> real \<Rightarrow> error + week_locals" where
  "week_block self cols row week_columns primary_hours =
     bind_result (project_hours_of cols row week_columns) (\<lambda>ph.
       let ot = fadd (other_tasks_hours self) primary_hours;
           tot = fadd ph ot
       in bind_result
            (if standard_hours self > 0
             then bind_result (py_div tot (standard_hours self)) (\<lambda>q. Inr (fmul q 100))
             else Inr 0)
            (\<lambda>sat. Inr \<lparr> project_hours = ph, other_tasks_of_week = ot,
                          total_hours = tot, saturation = sat \<rparr>))"

text \<open>The change and change rate of a week against the week before.\<close>

definition change_block :: "real \<Rightarrow> real \<Rightarrow> error + (real \<times> pyfloat)" where
  "change_block previous_total this_total =
     (if previous_total > 0
      then (let change = fsub this_total previous_total
            in bind_result (py_div change previous_total)
                 (\<lambda>q. Inr (change, Finite (fmul q 100))))
      else Inr (this_total, if this_total = 0 then Finite 0 else Infinity))"

text \<open>The local variables of one iteration, before the result dictionary is built.\<close>

record member_locals =
  member_name :: cell
  is_primary :: bool
  primary_hours :: real
  current_week :: week_locals
  next_week :: week_locals
  next_next_week :: week_locals
  next_week_change :: real
  next_week_change_rate :: pyfloat
  next_next_week_change :: real
  next_next_week_change_rate :: pyfloat

definition member_calc ::
  "processor \<Rightarrow> string list \<Rightarrow> string list \<Rightarrow> string list \<Rightarrow> string list \<Rightarrow> cell list
     \<Rightarrow> cell list \<Rightarrow> error + member_locals" where
  "member_calc self cols current_week_cols next_week_cols next_next_week_cols
       primary_members row =
     bind_result (row_get cols row member_col) (\<lambda>name.
       let prim = (name \<in> set primary_members);
           ph = (if prim then primary_responsibility_hours self else 0)
       in bind_result (week_block self cols row current_week_cols ph) (\<lambda>cw.
          bind_result (week_block self cols row next_week_cols ph) (\<lambda>nw.
          bind_result (week_block self cols row next_next_week_cols ph) (\<lambda>nnw.
          bind_result (change_block (total_hours cw) (total_hours nw)) (\<lambda>nc.
          bind_result (change_block (total_hours nw) (total_hours nnw)) (\<lambda>nnc.
          Inr \<lparr> member_name = name, is_primary = prim, primary_hours = ph,
                current_week = cw, next_week = nw, next_next_week = nnw,
                next_week_change = fst nc, next_week_change_rate = snd nc,
                next_next_week_change = fst nnc,
                next_next_week_change_rate = snd nnc \<rparr>))))))"

text \<open>
  The dictionary appended to \<^verbatim>\<open>results\<close>: the saturation, the change and the change
  rate are rounded here, an infinite change rate is stored as 0, and the status is taken
  from the saturation as computed.
\<close>

record week_entry =
  entry_project_hours :: real
  entry_other_tasks :: real
  entry_total_hours :: real
  entry_saturation :: real
  entry_status :: status

record result_row =
  row_member :: cell
  row_is_primary :: bool
  row_current_week :: week_entry
  row_next_week :: week_entry
  row_next_week_change :: real
  row_next_week_change_rate :: real
  row_next_next_week :: week_entry
  row_next_next_week_change :: real
  row_next_next_week_change_rate :: real

definition week_entry_of :: "processor \<Rightarrow> week_locals \<Rightarrow> week_entry" where
  "week_entry_of self w =
     \<lparr> entry_project_hours = project_hours w,
       entry_other_tasks = other_tasks_of_week w,
       entry_total_hours = total_hours w,
       entry_saturation = py_round1 (saturation w),
       entry_status = get_status self (saturation w) \<rparr>"

definition stored_rate :: "pyfloat \<Rightarrow> real" where
  "stored_rate rate = (case rate of Infinity \<Rightarrow> 0 | Finite r \<Rightarrow> py_round1 r)"

definition result_dict :: "processor \<Rightarrow> member_locals \<Rightarrow> result_row" where
  "result_dict self l =
     \<lparr> row_member = member_name l,
       row_is_primary = is_primary l,
       row_current_week = week_entry_of self (current_week l),
       row_next_week = week_entry_of self (next_week l),
       row_next_week_change = py_round1 (next_week_change l),
       row_next_week_change_rate = stored_rate (next_week_change_rate l),
       row_next_next_week = week_entry_of self (next_next_week l),
       row_next_next_week_change = py_round1 (next_next_week_change l),
       row_next_next_week_change_rate = stored_rate (next_next_week_change_rate l) \<rparr>"

subsection \<open>\<^verbatim>\<open>calculate_workload\<close>\<close>

record date_info =
  base_date :: date
  current_week_start :: date
  current_week_end :: date
  next_week_start :: date
  next_week_end :: date
  next_next_week_start :: date
  next_next_week_end :: date
  current_week_days :: nat
  next_week_days :: nat
  next_next_week_days :: nat

text \<open>
  \<open>today\<close> is the base date after parsing (or the current date when none is given).
  \<open>sort_values\<close> is the library's sort of a non-empty result frame by next week's stored
  saturation, descending, a parameter here; on the frame built from no rows at all the
  sort column does not exist and the library raises \<^verbatim>\<open>KeyError\<close>.
\<close>

definition calculate_workload ::
  "(string \<Rightarrow> date option) \<Rightarrow> (result_row list \<Rightarrow> result_row list) \<Rightarrow> processor \<Rightarrow> dataframe
     \<Rightarrow> date \<Rightarrow> cell list \<Rightarrow> error + (result_row list \<times> date_info)" where
  "calculate_workload strptime sort_values self df today primary_members =
     bind_result (get_week_range today 0) (\<lambda>cur.
     bind_result (get_week_range today 1) (\<lambda>nxt.
     bind_result (get_week_range today 2) (\<lambda>nnx.
       let current_week_cols = week_cols strptime (columns df) (fst cur) (snd cur);
           next_week_cols = week_cols strptime (columns df) (fst nxt) (snd nxt);
           next_next_week_cols = week_cols strptime (columns df) (fst nnx) (snd nnx)
       in bind_result
            (map_result
               (\<lambda>row. bind_result
                         (member_calc self (columns df) current_week_cols next_week_cols
                            next_next_week_cols primary_members row)
                         (\<lambda>l. Inr (result_dict self l)))
               (rows df))
            (\<lambda>results.
               if results = [] then Inl (KeyError next_week_saturation_col)
               else Inr (sort_values results,
                         \<lparr> base_date = today,
                           current_week_start = fst cur, current_week_end = snd cur,
                           next_week_start = fst nxt, next_week_end = snd nxt,
                           next_next_week_start = fst nnx, next_next_week_end = snd nnx,
                           current_week_days = length current_week_cols,
                           next_week_days = length next_week_cols,
                           next_next_week_days = length next_next_week_cols \<rparr>)))))"

subsection \<open>\<^verbatim>\<open>DataValidator.validate_config\<close>\<close>

text \<open>The message of a rejection, by its kind and the key it names.\<close>

datatype config_issue =
    Missing_field string
  | Standard_hours_not_positive
  | Standard_hours_over_168
  | Missing_threshold string
  | Threshold_negative string
  | Threshold_order

text \<open>The loop over the four threshold keys: present, and not negative.\<close>

fun check_thresholds ::
  "saturation_thresholds_dict \<Rightarrow> (string \<times> (saturation_thresholds_dict \<Rightarrow> real option)) list
     \<Rightarrow> config_issue option" where
  "check_thresholds t [] = None"
| "check_thresholds t ((key, field) # ks) =
     (case field t of
        None \<Rightarrow> Some (Missing_threshold key)
      | Some v \<Rightarrow> if v < 0 then Some (Threshold_negative key) else check_thresholds t ks)"

definition required_threshold_keys ::
  "(string \<times> (saturation_thresholds_dict \<Rightarrow> real option)) list" where
  "required_threshold_keys =
     [(''under_saturated_max'', th_under_saturated_max), (''normal_min'', th_normal_min),
      (''normal_max'', th_normal_max), (''over_saturated_min'', th_over_saturated_min)]"

definition validate_config :: "config \<Rightarrow> bool \<times> config_issue option" where
  "validate_config cfg =
     (if standard_hours_per_week cfg = None
      then (False, Some (Missing_field ''standard_hours_per_week''))
      else if other_tasks cfg = None then (False, Some (Missing_field ''other_tasks''))
      else if saturation_thresholds cfg = None
      then (False, Some (Missing_field ''saturation_thresholds''))
      else
        let sh = dict_get (standard_hours_per_week cfg) 0
        in if sh \<le> 0 then (False, Some Standard_hours_not_positive)
           else if sh > 168 then (False, Some Standard_hours_over_168)
           else
             (case saturation_thresholds cfg of
                None \<Rightarrow> (False, Some (Missing_threshold ''under_saturated_max''))
              | Some t \<Rightarrow>
                  (case check_thresholds t required_threshold_keys of
                     Some issue \<Rightarrow> (False, Some issue)
                   | None \<Rightarrow>
                       if \<not> (the (th_under_saturated_max t) \<le> the (th_normal_min t)
                             \<and> the (th_normal_min t) \<le> the (th_normal_max t)
                             \<and> the (th_normal_max t) \<le> the (th_over_saturated_min t))
                       then (False, Some Threshold_order)
                       else (True, None))))"

subsection \<open>Project hours as the specification words them\<close>



subsection \<open>Example configurations\<close>

text \<open>\<^verbatim>\<open>get_default_config()\<close> of utils/config_loader.py, with other thresholds.\<close>

definition thresholds_config :: "real \<Rightarrow> real \<Rightarrow> real \<Rightarrow> real \<Rightarrow> config" where
  "thresholds_config usm nmin nmax osm =
     \<lparr> standard_hours_per_week = Some 40,
       other_tasks = Some \<lparr> ot_enabled = Some True, ot_weekly_minutes_per_person = Some 92 \<rparr>,
       primary_responsibility =
         Some \<lparr> pr_enabled = Some True, pr_weekly_percentage = Some (1 / 2) \<rparr>,
       saturation_thresholds =
         Some \<lparr> th_under_saturated_max = Some usm, th_normal_min = Some nmin,
                th_normal_max = Some nmax, th_over_saturated_min = Some osm \<rparr> \<rparr>"

definition default_config :: config where
  "default_config = thresholds_config 90 90 110 110"

text \<open>
  The configuration of the specification's example scenarios: 40 standard hours, 1.5 hours
  of other tasks a week, thresholds 90 and 110.
\<close>

definition scenario_config :: config where
  "scenario_config =
     default_config\<lparr>other_tasks :=
       Some \<lparr> ot_enabled = Some True, ot_weekly_minutes_per_person = Some 90 \<rparr>\<rparr>"

text \<open>
  The columns of a table with three date columns, one per week from the base date
  2025-11-17 (ordinal 739572), and a parser that knows these three labels.
\<close>

definition example_columns :: "string list" where
  "example_columns = [member_col, ''2025-11-17'', ''2025-11-24'', ''2025-12-01'']"

definition example_strptime :: "string \<Rightarrow> date option" where
  "example_strptime label =
     (if label = ''2025-11-17'' then Some 739572
      else if label = ''2025-11-24'' then Some 739579
      else if label = ''2025-12-01'' then Some 739586
      else None)"

text \<open>
  Rows of the example table: member A (40, 20 and no hours), member C with hours in the
  next week only (scenario 3 of the specification), member D without any, member G with 44
  hours and member H with 11.5 hours in the current week, members E and F with 44 and 48.
\<close>

definition example_row_A :: "cell list" where
  "example_row_A = [Str ''A'', Num 40, Num 20, NaN]"





definition example_row_E :: "cell list" where
  "example_row_E = [Str ''E'', Num 44, NaN, NaN]"

definition example_row_F :: "cell list" where
  "example_row_F = [Str ''F'', Num 48, NaN, NaN]"

text \<open>
  Variants of the scenario configuration: a standard week of 0 hours; the other tasks
  switched off (no overhead for a member without primary responsibility); the primary
  responsibility switched off.
\<close>

definition zero_hours_config :: config where
  "zero_hours_config = scenario_config\<lparr>standard_hours_per_week := Some 0\<rparr>"

definition no_overhead_config :: config where
  "no_overhead_config =
     scenario_config\<lparr>other_tasks :=
       Some \<lparr> ot_enabled = Some False, ot_weekly_minutes_per_person = Some 90 \<rparr>\<rparr>"

definition no_primary_config :: config where
  "no_primary_config =
     scenario_config\<lparr>primary_responsibility :=
       Some \<lparr> pr_enabled = Some False, pr_weekly_percentage = Some (1 / 2) \<rparr>\<rparr>"



text \<open>
  The current week of members E and F under the scenario configuration (overhead 1.5
  hours): saturations 113.75 and 123.75.
\<close>

definition example_week_E :: week_locals where
  "example_week_E =
     \<lparr> project_hours = 44, other_tasks_of_week = 3 / 2, total_hours = 91 / 2,
       saturation = 455 / 4 \<rparr>"

definition example_week_F :: week_locals where
  "example_week_F =
     \<lparr> project_hours = 48, other_tasks_of_week = 3 / 2, total_hours = 99 / 2,
       saturation = 495 / 4 \<rparr>"

text \<open>
  A configuration without any key, a table without rows, and a table whose columns do not
  include the member column (its only date cell holds a string).
\<close>

definition empty_config :: config where
  "empty_config =
     \<lparr> standard_hours_per_week = None, other_tasks = None, primary_responsibility = None,
       saturation_thresholds = None \<rparr>"

definition empty_df :: dataframe where
  "empty_df = \<lparr> columns = example_columns, rows = [] \<rparr>"

definition no_member_df :: dataframe where
  "no_member_df = \<lparr> columns = [''name'', ''2025-11-17''], rows = [[Str ''A'', Str ''x'']] \<rparr>"

text \<open>
  A sorting function to run the examples with: descending by next week's stored saturation.
\<close>

definition example_sort :: "result_row list \<Rightarrow> result_row list" where
  "example_sort = sort_key (\<lambda>r. - entry_saturation (row_next_week r))"

section \<open>Properties\<close>

subsection \<open>Rounding to the nearest double\<close>

lemma pow2_powr: "pow2 k = 2 powr (of_int k)"
  by (simp add: pow2_def powr_real_of_int inverse_eq_divide)

lemma pow2_pos [simp]: "0 < pow2 k"
  by (simp add: pow2_powr)

lemma pow2_neq0 [simp]: "pow2 k \<noteq> 0"
  using pow2_pos [of k] by linarith

lemma pow2_add: "pow2 (a + b) = pow2 a * pow2 b"
  by (simp add: pow2_powr powr_add)

lemma pow2_nonneg [simp]: "0 \<le> pow2 k"
  using pow2_pos [of k] by linarith

lemma pow2_split: "pow2 e = pow2 c * pow2 (e - c)"
  using pow2_add [of c "e - c"] by simp

lemma pow2_mono: "a \<le> b \<Longrightarrow> pow2 a \<le> pow2 b"
  by (simp add: pow2_powr)

lemma pow2_less_iff: "pow2 a < pow2 b \<longleftrightarrow> a < b"
  by (simp add: pow2_powr)

lemma pow2_nat: "0 \<le> k \<Longrightarrow> pow2 k = of_int (2 ^ nat k)"
  by (simp add: pow2_def)

lemma round_half_even_of_int [simp]: "round_half_even (of_int n) = n"
  by (simp add: round_half_even_def)

lemma round_half_even_0 [simp]: "round_half_even 0 = 0"
  using round_half_even_of_int [of 0] by simp

lemma round_half_even_mono:
  assumes "x \<le> y"
  shows "round_half_even x \<le> round_half_even y"
proof -
  define f where "f = \<lfloor>x\<rfloor>"
  define g where "g = \<lfloor>y\<rfloor>"
  have fg: "f \<le> g"
    unfolding f_def g_def using assms by (rule floor_mono)
  have xf: "of_int f \<le> x" "x < of_int f + 1"
    unfolding f_def by linarith+
  have yg: "of_int g \<le> y" "y < of_int g + 1"
    unfolding g_def by linarith+
  have rx: "round_half_even x = (if x - of_int f < 1 / 2 then f
              else if 1 / 2 < x - of_int f then f + 1
              else if even f then f else f + 1)"
    by (simp add: round_half_even_def Let_def f_def)
  have ry: "round_half_even y = (if y - of_int g < 1 / 2 then g
              else if 1 / 2 < y - of_int g then g + 1
              else if even g then g else g + 1)"
    by (simp add: round_half_even_def Let_def g_def)
  show ?thesis
  proof (cases "f = g")
    case True
    with xf yg assms show ?thesis
      unfolding rx ry by auto
  next
    case False
    with fg have "f + 1 \<le> g" by simp
    then show ?thesis
      unfolding rx ry by auto
  qed
qed

lemma round_half_even_minus: "round_half_even (- y) = - round_half_even y"
proof (cases "y = of_int \<lfloor>y\<rfloor>")
  case True
  then obtain n where "y = of_int n" ..
  then show ?thesis
    using round_half_even_of_int [of "- n"] by simp
next
  case False
  define f where "f = \<lfloor>y\<rfloor>"
  have lo: "of_int f < y" and hi: "y < of_int f + 1"
    using False unfolding f_def by linarith+
  have fm: "\<lfloor>- y\<rfloor> = - f - 1"
    using lo hi by (intro floor_unique) auto
  have ev: "even (- f - 1) \<longleftrightarrow> odd f"
    by simp
  show ?thesis
    using lo hi ev
    by (simp add: round_half_even_def Let_def fm f_def [symmetric])
qed

lemma float_exponent_upper:
  assumes "x \<noteq> 0"
  shows "\<bar>x\<bar> < pow2 (float_exponent x + 1)"
proof -
  have pos: "0 < \<bar>x\<bar>" using assms by simp
  have "log 2 \<bar>x\<bar> < of_int (\<lfloor>log 2 \<bar>x\<bar>\<rfloor> + 1)"
    by linarith
  also have "\<dots> \<le> of_int (float_exponent x + 1)"
    by (simp add: float_exponent_def)
  finally have "log 2 \<bar>x\<bar> < of_int (float_exponent x + 1)" .
  then have "\<bar>x\<bar> < 2 powr of_int (float_exponent x + 1)"
    using pos by (simp add: log_less_iff)
  then show ?thesis
    by (simp add: pow2_powr)
qed

lemma float_exponent_lower:
  assumes "x \<noteq> 0" and "- 1022 < float_exponent x"
  shows "pow2 (float_exponent x) \<le> \<bar>x\<bar>"
proof -
  have pos: "0 < \<bar>x\<bar>" using assms by simp
  have e: "float_exponent x = \<lfloor>log 2 \<bar>x\<bar>\<rfloor>"
    using assms(2) by (simp add: float_exponent_def max_def split: if_splits)
  have "of_int (float_exponent x) \<le> log 2 \<bar>x\<bar>"
    unfolding e by linarith
  then have "2 powr of_int (float_exponent x) \<le> \<bar>x\<bar>"
    using pos by (simp add: le_log_iff)
  then show ?thesis
    by (simp add: pow2_powr)
qed

lemma float_exponent_mono:
  assumes "x \<noteq> 0" and "\<bar>x\<bar> \<le> \<bar>y\<bar>"
  shows "float_exponent x \<le> float_exponent y"
proof -
  have "log 2 \<bar>x\<bar> \<le> log 2 \<bar>y\<bar>"
    using assms by (simp add: log_le_cancel_iff)
  then have "\<lfloor>log 2 \<bar>x\<bar>\<rfloor> \<le> \<lfloor>log 2 \<bar>y\<bar>\<rfloor>"
    by (rule floor_mono)
  then show ?thesis
    unfolding float_exponent_def by (intro max.mono) simp_all
qed

lemma float_exponent_eq:
  assumes "pow2 e \<le> \<bar>x\<bar>" and "\<bar>x\<bar> < pow2 (e + 1)" and "- 1022 \<le> e"
  shows "float_exponent x = e"
proof -
  have pos: "0 < \<bar>x\<bar>"
    using assms(1) pow2_pos [of e] by linarith
  have "of_int e \<le> log 2 \<bar>x\<bar>"
    using assms(1) pos by (simp add: le_log_iff pow2_powr)
  moreover have "log 2 \<bar>x\<bar> < of_int e + 1"
    using assms(2) pos by (simp add: log_less_iff pow2_powr)
  ultimately have "\<lfloor>log 2 \<bar>x\<bar>\<rfloor> = e"
    by (intro floor_unique) auto
  then show ?thesis
    using assms(3) by (simp add: float_exponent_def)
qed

lemma fl_0 [simp]: "fl 0 = 0"
  by (simp add: fl_def)

lemma fl_nonneg: "0 \<le> x \<Longrightarrow> 0 \<le> fl x"
proof -
  assume "0 \<le> x"
  then have "0 \<le> x / pow2 (float_exponent x - 52)"
    by (rule divide_nonneg_pos [OF _ pow2_pos])
  then have "round_half_even 0 \<le> round_half_even (x / pow2 (float_exponent x - 52))"
    by (rule round_half_even_mono)
  then show ?thesis
    by (simp add: fl_def)
qed

lemma float_exponent_minus [simp]: "float_exponent (- x) = float_exponent x"
  by (simp add: float_exponent_def)

lemma fl_minus: "fl (- x) = - fl x"
  by (simp add: fl_def round_half_even_minus)

lemma fl_le_pow2:
  assumes "0 < x"
  shows "fl x \<le> pow2 (float_exponent x + 1)"
proof -
  define q where "q = pow2 (float_exponent x - 52)"
  have q: "0 < q" by (simp add: q_def)
  have "x < pow2 (float_exponent x + 1)"
    using float_exponent_upper [of x] assms by simp
  also have "pow2 (float_exponent x + 1) = pow2 53 * q"
    unfolding q_def using pow2_split [of "float_exponent x + 1" 53] by simp
  finally have "x / q \<le> pow2 53"
    using q by (simp add: pos_divide_le_eq)
  then have "round_half_even (x / q) \<le> round_half_even (pow2 53)"
    by (rule round_half_even_mono)
  also have "round_half_even (pow2 53) = 2 ^ 53"
    using round_half_even_of_int [of "2 ^ 53"] by (simp add: pow2_def)
  finally have "(of_int (round_half_even (x / q)) :: real) \<le> of_int (2 ^ 53)"
    by (simp only: of_int_le_iff)
  then have "of_int (round_half_even (x / q)) * q \<le> pow2 53 * q"
    using q by (simp add: pow2_def)
  moreover have "pow2 (float_exponent x + 1) = pow2 53 * q"
    unfolding q_def using pow2_split [of "float_exponent x + 1" 53] by simp
  ultimately show ?thesis
    by (simp add: fl_def q_def)
qed

lemma pow2_le_fl:
  assumes "0 < x" and "- 1022 < float_exponent x"
  shows "pow2 (float_exponent x) \<le> fl x"
proof -
  define q where "q = pow2 (float_exponent x - 52)"
  have q: "0 < q" by (simp add: q_def)
  have eq: "pow2 (float_exponent x) = pow2 52 * q"
    unfolding q_def by (rule pow2_split)
  have "pow2 (float_exponent x) \<le> x"
    using float_exponent_lower [of x] assms by simp
  then have "pow2 52 \<le> x / q"
    using q by (simp add: eq pos_le_divide_eq)
  then have "round_half_even (pow2 52) \<le> round_half_even (x / q)"
    by (rule round_half_even_mono)
  moreover have "round_half_even (pow2 52) = 2 ^ 52"
    using round_half_even_of_int [of "2 ^ 52"] by (simp add: pow2_def)
  ultimately have "(of_int (2 ^ 52) :: real) \<le> of_int (round_half_even (x / q))"
    by (simp only: of_int_le_iff)
  then have "pow2 52 * q \<le> of_int (round_half_even (x / q)) * q"
    using q by (simp add: pow2_def)
  then show ?thesis
    by (simp add: fl_def q_def [symmetric] eq)
qed

lemma fl_mono_pos:
  assumes "0 < x" and "x \<le> y"
  shows "fl x \<le> fl y"
proof -
  have y: "0 < y" using assms by simp
  have e: "float_exponent x \<le> float_exponent y"
    using assms by (intro float_exponent_mono) auto
  show ?thesis
  proof (cases "float_exponent x = float_exponent y")
    case True
    define q where "q = pow2 (float_exponent y - 52)"
    have q: "0 < q" by (simp add: q_def)
    have "x / q \<le> y / q"
      using assms(2) q by (simp add: divide_right_mono)
    then have "round_half_even (x / q) \<le> round_half_even (y / q)"
      by (rule round_half_even_mono)
    then have "(of_int (round_half_even (x / q)) :: real) \<le> of_int (round_half_even (y / q))"
      by (simp only: of_int_le_iff)
    then have "of_int (round_half_even (x / q)) * q \<le> of_int (round_half_even (y / q)) * q"
      using q by simp
    then show ?thesis
      by (simp add: fl_def True q_def)
  next
    case False
    with e have lt: "float_exponent x + 1 \<le> float_exponent y"
      by simp
    have "- 1022 \<le> float_exponent x"
      by (simp add: float_exponent_def)
    with lt have big: "- 1022 < float_exponent y"
      by simp
    have "fl x \<le> pow2 (float_exponent x + 1)"
      by (rule fl_le_pow2 [OF assms(1)])
    also have "\<dots> \<le> pow2 (float_exponent y)"
      by (rule pow2_mono [OF lt])
    also have "\<dots> \<le> fl y"
      by (rule pow2_le_fl [OF y big])
    finally show ?thesis .
  qed
qed

lemma fl_mono:
  assumes "x \<le> y"
  shows "fl x \<le> fl y"
proof -
  consider "0 < x" | "x \<le> 0" "0 \<le> y" | "y < 0"
    using assms by linarith
  then show ?thesis
  proof cases
    case 1
    then show ?thesis by (rule fl_mono_pos [OF _ assms])
  next
    case 2
    have "fl x \<le> 0"
      using fl_nonneg [of "- x"] 2(1) by (simp add: fl_minus)
    moreover have "0 \<le> fl y"
      by (rule fl_nonneg [OF 2(2)])
    ultimately show ?thesis by simp
  next
    case 3
    have "fl (- y) \<le> fl (- x)"
      using 3 assms by (intro fl_mono_pos) auto
    then show ?thesis
      by (simp add: fl_minus)
  qed
qed

lemma fl_representable:
  assumes "\<bar>m\<bar> < 2 ^ 53" and "- 1074 \<le> k"
  shows "fl (of_int m * pow2 k) = of_int m * pow2 k"
proof (cases "m = 0")
  case True
  then show ?thesis by simp
next
  case False
  define x where "x = of_int m * pow2 k"
  define e where "e = float_exponent x"
  have x0: "x \<noteq> 0"
    using False by (simp add: x_def)
  have absx: "\<bar>x\<bar> = of_int \<bar>m\<bar> * pow2 k"
    by (simp add: x_def abs_mult)
  have p53: "pow2 53 = of_int (2 ^ 53)"
    by (simp add: pow2_def)
  have "(of_int \<bar>m\<bar> :: real) < of_int (2 ^ 53)"
    using assms(1) by (simp only: of_int_less_iff)
  then have "of_int \<bar>m\<bar> * pow2 k < pow2 53 * pow2 k"
    unfolding p53 by (intro mult_strict_right_mono pow2_pos)
  then have "\<bar>x\<bar> < pow2 53 * pow2 k"
    unfolding absx .
  moreover have "pow2 (k + 53) = pow2 53 * pow2 k"
    using pow2_split [of "k + 53" 53] by simp
  ultimately have ub: "\<bar>x\<bar> < pow2 (k + 53)"
    by simp
  have le: "e - 52 \<le> k"
  proof (cases "- 1022 < e")
    case True
    then have "pow2 e \<le> \<bar>x\<bar>"
      unfolding e_def using float_exponent_lower [OF x0] by simp
    with ub have "pow2 e < pow2 (k + 53)" by simp
    then show ?thesis by (simp add: pow2_less_iff)
  next
    case False
    then show ?thesis using assms(2) by simp
  qed
  define j where "j = k - (e - 52)"
  have j: "0 \<le> j" using le by (simp add: j_def)
  have kj: "pow2 k = pow2 j * pow2 (e - 52)"
    using pow2_split [of k j] by (simp add: j_def)
  then have quot: "x / pow2 (e - 52) = of_int (m * 2 ^ nat j)"
    using j by (simp add: x_def pow2_nat)
  have "fl x = of_int (m * 2 ^ nat j) * pow2 (e - 52)"
    unfolding fl_def e_def [symmetric] quot by (simp only: round_half_even_of_int)
  also have "\<dots> = of_int m * (pow2 j * pow2 (e - 52))"
    using j by (simp add: pow2_nat)
  also have "pow2 j * pow2 (e - 52) = pow2 k"
    using kj by simp
  finally show ?thesis
    by (simp add: x_def)
qed

lemma fl_of_int: "\<bar>m\<bar> < 2 ^ 53 \<Longrightarrow> fl (of_int m) = of_int m"
  using fl_representable [of m 0] by (simp add: pow2_def)

lemma fl_eval:
  assumes "pow2 e \<le> \<bar>x\<bar>" and "\<bar>x\<bar> < pow2 (e + 1)" and "- 1022 \<le> e"
  shows "fl x = of_int (round_half_even (x / pow2 (e - 52))) * pow2 (e - 52)"
  by (simp add: fl_def float_exponent_eq [OF assms])

lemma fl_idem [simp]: "fl (fl x) = fl x"
proof (cases "x = 0")
  case True
  then show ?thesis by simp
next
  case False
  define e where "e = float_exponent x"
  define q where "q = pow2 (e - 52)"
  define n where "n = round_half_even (x / q)"
  have q: "0 < q" by (simp add: q_def)
  have e: "- 1022 \<le> e" by (simp add: e_def float_exponent_def)
  have fx: "fl x = of_int n * q"
    by (simp add: fl_def n_def q_def e_def)
  have p53: "pow2 53 = of_int (2 ^ 53)"
    by (simp add: pow2_def)
  have split: "pow2 (e + 1) = pow2 53 * q"
    unfolding q_def using pow2_split [of "e + 1" 53] by simp
  have "\<bar>x\<bar> < pow2 (e + 1)"
    unfolding e_def by (rule float_exponent_upper [OF False])
  then have ub: "x \<le> pow2 53 * q" "- (pow2 53 * q) \<le> x"
    unfolding split by linarith+
  have up: "x / q \<le> of_int (2 ^ 53)"
    using ub(1) q unfolding p53 by (simp add: pos_divide_le_eq)
  have dn: "of_int (- (2 ^ 53)) \<le> x / q"
    using ub(2) q unfolding p53 by (simp add: pos_le_divide_eq)
  have hi: "n \<le> 2 ^ 53"
    using round_half_even_mono [OF up] unfolding n_def by (simp only: round_half_even_of_int)
  have lo: "- (2 ^ 53) \<le> n"
    using round_half_even_mono [OF dn] unfolding n_def by (simp only: round_half_even_of_int)
  consider "\<bar>n\<bar> < 2 ^ 53" | "n = 2 ^ 53" | "n = - (2 ^ 53)"
    using hi lo by linarith
  then show ?thesis
  proof cases
    case 1
    have "- 1074 \<le> e - 52" using e by simp
    then show ?thesis
      unfolding fx q_def by (rule fl_representable [OF 1])
  next
    case 2
    have "fl x = of_int 1 * pow2 (e + 1)"
      unfolding fx 2 split by (simp add: pow2_def)
    moreover have "fl (of_int 1 * pow2 (e + 1)) = of_int 1 * pow2 (e + 1)"
      using e by (intro fl_representable) simp_all
    ultimately show ?thesis by simp
  next
    case 3
    have "fl x = of_int (- 1) * pow2 (e + 1)"
      unfolding fx 3 split by (simp add: pow2_def)
    moreover have "fl (of_int (- 1) * pow2 (e + 1)) = of_int (- 1) * pow2 (e + 1)"
      using e by (intro fl_representable) simp_all
    ultimately show ?thesis by simp
  qed
qed

lemma fadd_0 [simp]: "fadd 0 (fl x) = fl x" "fadd (fl x) 0 = fl x" "fadd 0 0 = 0"
  by (simp_all add: fadd_def)

lemma fadd_mono: "a \<le> b \<Longrightarrow> fadd a c \<le> fadd b c"
  by (simp add: fadd_def fl_mono)

lemma fdiv_mono: "a \<le> b \<Longrightarrow> 0 < c \<Longrightarrow> fdiv a c \<le> fdiv b c"
  by (simp add: fdiv_def fl_mono divide_right_mono)

lemma fmul_100_mono: "a \<le> b \<Longrightarrow> fmul a 100 \<le> fmul b 100"
  by (simp add: fmul_def fl_mono)

lemma py_round1_0 [simp]: "py_round1 0 = 0"
  by (simp add: py_round1_def)

lemma py_round1_mono:
  assumes "x \<le> y"
  shows "py_round1 x \<le> py_round1 y"
proof -
  have "x * 10 \<le> y * 10"
    using assms by simp
  then have "round_half_even (x * 10) \<le> round_half_even (y * 10)"
    by (rule round_half_even_mono)
  then have "(of_int (round_half_even (x * 10)) :: real) \<le> of_int (round_half_even (y * 10))"
    by (simp only: of_int_le_iff)
  then have "(of_int (round_half_even (x * 10)) :: real) / 10
              \<le> of_int (round_half_even (y * 10)) / 10"
    by simp
  then show ?thesis
    unfolding py_round1_def by (rule fl_mono)
qed

subsection \<open>Auxiliary facts about the model\<close>

lemma bind_result_Inr [simp]: "bind_result (Inr x) f = f x"
  and bind_result_Inl [simp]: "bind_result (Inl e) f = Inl e"
  by (simp_all add: bind_result_def)

lemma bind_result_eq_Inr:
  "bind_result m f = Inr y \<longleftrightarrow> (\<exists>x. m = Inr x \<and> f x = Inr y)"
  by (cases m) simp_all

lemma change_block_eq:
  "change_block a b =
     Inr (if a > 0 then (fsub b a, Finite (fmul (fdiv (fsub b a) a) 100))
          else (b, if b = 0 then Finite 0 else Infinity))"
  by (simp add: change_block_def py_div_def Let_def)

lemma week_block_eq:
  assumes "project_hours_of cols row wc = Inr p"
  shows "week_block self cols row wc ph =
     Inr \<lparr> project_hours = p, other_tasks_of_week = fadd (other_tasks_hours self) ph,
           total_hours = fadd p (fadd (other_tasks_hours self) ph),
           saturation =
             (if standard_hours self > 0
              then fmul (fdiv (fadd p (fadd (other_tasks_hours self) ph)) (standard_hours self))
                     100
              else 0) \<rparr>"
  by (simp add: week_block_def assms py_div_def Let_def)

lemma week_block_Inr:
  assumes "week_block self cols row wc ph = Inr w"
  shows "project_hours_of cols row wc = Inr (project_hours w)
       \<and> other_tasks_of_week w = fadd (other_tasks_hours self) ph
       \<and> total_hours w = fadd (project_hours w) (other_tasks_of_week w)
       \<and> saturation w = (if standard_hours self > 0
                          then fmul (fdiv (total_hours w) (standard_hours self)) 100 else 0)"
  using assms
  by (auto simp: week_block_def Let_def py_div_def bind_result_eq_Inr split: if_splits)

lemma member_calc_Inr:
  assumes "member_calc self cols c1 c2 c3 pm row = Inr l"
  shows "row_get cols row member_col = Inr (member_name l)
       \<and> is_primary l = (member_name l \<in> set pm)
       \<and> primary_hours l = (if is_primary l then primary_responsibility_hours self else 0)
       \<and> week_block self cols row c1 (primary_hours l) = Inr (current_week l)
       \<and> week_block self cols row c2 (primary_hours l) = Inr (next_week l)
       \<and> week_block self cols row c3 (primary_hours l) = Inr (next_next_week l)
       \<and> change_block (total_hours (current_week l)) (total_hours (next_week l))
           = Inr (next_week_change l, next_week_change_rate l)
       \<and> change_block (total_hours (next_week l)) (total_hours (next_next_week l))
           = Inr (next_next_week_change l, next_next_week_change_rate l)"
  using assms
  unfolding member_calc_def Let_def bind_result_eq_Inr
  by (elim exE conjE) (auto split: if_splits)

text \<open>The loop body returns as soon as the member's name and the hours of the three weeks can be read.\<close>

lemma member_calc_total:
  assumes "row_get cols row member_col = Inr name"
    and "project_hours_of cols row c1 = Inr p1"
    and "project_hours_of cols row c2 = Inr p2"
    and "project_hours_of cols row c3 = Inr p3"
  shows "\<exists>l. member_calc self cols c1 c2 c3 pm row = Inr l"
  by (simp add: member_calc_def assms week_block_eq change_block_eq Let_def)

lemma map_result_no_zde:
  assumes "\<And>x. f x \<noteq> Inl ZeroDivisionError"
  shows "map_result f xs \<noteq> Inl ZeroDivisionError"
  by (induction xs) (auto simp: assms split: sum.splits)

lemma cell_values_no_zde: "cell_values cs \<noteq> Inl ZeroDivisionError"
  by (induction cs rule: cell_values.induct) (auto simp: bind_result_def split: sum.splits)

lemma cell_sum_no_zde: "cell_sum cs \<noteq> Inl ZeroDivisionError"
  using cell_values_no_zde [of cs] by (auto simp: cell_sum_def bind_result_def split: sum.splits)

lemma row_get_no_zde: "row_get cols row label \<noteq> Inl ZeroDivisionError"
  by (simp add: row_get_def split: option.splits)

lemma project_hours_of_no_zde: "project_hours_of cols row wc \<noteq> Inl ZeroDivisionError"
  using map_result_no_zde [of "row_get cols row" wc] cell_sum_no_zde
  by (auto simp: project_hours_of_def bind_result_def row_get_no_zde split: sum.splits)

lemma week_block_no_zde: "week_block self cols row wc ph \<noteq> Inl ZeroDivisionError"
  using project_hours_of_no_zde [of cols row wc]
  by (auto simp: week_block_def bind_result_def Let_def py_div_def split: sum.splits)

lemma member_calc_no_zde:
  "member_calc self cols c1 c2 c3 pm row \<noteq> Inl ZeroDivisionError"
  using row_get_no_zde [of cols row member_col]
        week_block_no_zde [of self cols row c1] week_block_no_zde [of self cols row c2]
        week_block_no_zde [of self cols row c3]
  by (auto simp: member_calc_def bind_result_def Let_def change_block_eq split: sum.splits)





text \<open>Values the examples need: doubles that are integers, halves and quarters.\<close>

lemma fl_numeral: "numeral n < (2 :: int) ^ 53 \<Longrightarrow> fl (numeral n) = numeral n"
  using fl_of_int [of "numeral n"] by simp

lemma fl_numeral_half: "numeral n < (2 :: int) ^ 53 \<Longrightarrow> fl (numeral n / 2) = numeral n / 2"
  using fl_representable [of "numeral n" "- 1"] by (simp add: pow2_def)

lemma fl_numeral_quarter: "numeral n < (2 :: int) ^ 53 \<Longrightarrow> fl (numeral n / 4) = numeral n / 4"
  using fl_representable [of "numeral n" "- 2"] by (simp add: pow2_def)

lemma fl_1 [simp]: "fl 1 = 1" "fl (1 / 2) = 1 / 2"
  using fl_of_int [of 1] fl_representable [of 1 "- 1"] by (simp_all add: pow2_def)

lemmas float_eval =
  fadd_def fsub_def fmul_def fdiv_def fl_minus fl_numeral fl_numeral_half fl_numeral_quarter

text \<open>The example table and the example configurations, evaluated.\<close>

lemma example_week_cols:
  "week_cols example_strptime example_columns 739572 739578 = [''2025-11-17'']"
  "week_cols example_strptime example_columns 739579 739585 = [''2025-11-24'']"
  "week_cols example_strptime example_columns 739586 739592 = [''2025-12-01'']"
  by (simp_all add: week_cols_def example_columns_def example_strptime_def in_week_def member_col_def)

lemma example_weeks:
  "get_week_range 739572 0 = Inr (739572, 739578)"
  "get_week_range 739572 1 = Inr (739579, 739585)"
  "get_week_range 739572 2 = Inr (739586, 739592)"
  by (simp_all add: get_week_range_def timedelta_def date_add_def weekday_def MAXORDINAL_def
        Let_def)


lemma example_row_get:
  "row_get example_columns [m, a, b, c] member_col = Inr m"
  "row_get example_columns [m, a, b, c] ''2025-11-17'' = Inr a"
  "row_get example_columns [m, a, b, c] ''2025-11-24'' = Inr b"
  "row_get example_columns [m, a, b, c] ''2025-12-01'' = Inr c"
  by (simp_all add: row_get_def example_columns_def member_col_def)

lemma example_project_hours:
  "project_hours_of example_columns [m, Num a, b, c] [''2025-11-17''] = Inr a"
  "project_hours_of example_columns [m, NaN, b, c] [''2025-11-17''] = Inr 0"
  "project_hours_of example_columns [m, a', Num a, c] [''2025-11-24''] = Inr a"
  "project_hours_of example_columns [m, a', NaN, c] [''2025-11-24''] = Inr 0"
  "project_hours_of example_columns [m, a', b, Num a] [''2025-12-01''] = Inr a"
  "project_hours_of example_columns [m, a', b, NaN] [''2025-12-01''] = Inr 0"
  by (simp_all add: project_hours_of_def example_row_get cell_sum_def float_sum_def)

lemma scenario_self:
  "init scenario_config =
     \<lparr> standard_hours = 40, other_tasks_enabled = True, other_tasks_minutes = 90,
       other_tasks_hours = 3 / 2, primary_responsibility_enabled = True,
       primary_responsibility_percentage = 1 / 2, primary_responsibility_hours = 20,
       under_saturated_max = 90, normal_max = 110 \<rparr>"
  by (simp add: init_def scenario_config_def default_config_def thresholds_config_def
        dict_get_def dict_get2_def Let_def float_eval)

lemma zero_hours_self:
  "init zero_hours_config =
     \<lparr> standard_hours = 0, other_tasks_enabled = True, other_tasks_minutes = 90,
       other_tasks_hours = 3 / 2, primary_responsibility_enabled = True,
       primary_responsibility_percentage = 1 / 2, primary_responsibility_hours = 0,
       under_saturated_max = 90, normal_max = 110 \<rparr>"
  by (simp add: init_def zero_hours_config_def scenario_config_def default_config_def
        thresholds_config_def dict_get_def dict_get2_def Let_def float_eval)





lemma row_get_missing:
  assumes "label \<notin> set cols"
  shows "row_get cols row label = Inl (KeyError label)"
proof -
  have "label \<notin> fst ` set (zip cols row)"
    using assms by (auto dest: set_zip_leftD)
  then have "map_of (zip cols row) label = None"
    by (simp add: map_of_eq_None_iff)
  then show ?thesis
    by (simp add: row_get_def)
qed

lemma member_calc_missing:
  assumes "member_col \<notin> set cols"
  shows "member_calc self cols c1 c2 c3 pm row = Inl (KeyError member_col)"
  by (simp add: member_calc_def row_get_missing [OF assms])

lemma check_thresholds_all:
  assumes "th_under_saturated_max t = Some a" and "th_normal_min t = Some b"
    and "th_normal_max t = Some c" and "th_over_saturated_min t = Some d"
  shows "check_thresholds t required_threshold_keys =
           (if a < 0 then Some (Threshold_negative ''under_saturated_max'')
            else if b < 0 then Some (Threshold_negative ''normal_min'')
            else if c < 0 then Some (Threshold_negative ''normal_max'')
            else if d < 0 then Some (Threshold_negative ''over_saturated_min'')
            else None)"
  by (simp add: required_threshold_keys_def assms)

lemma check_thresholds_missing:
  assumes "th_under_saturated_max t = None \<or> th_normal_min t = None
         \<or> th_normal_max t = None \<or> th_over_saturated_min t = None"
  shows "check_thresholds t required_threshold_keys \<noteq> None"
  using assms by (auto simp: required_threshold_keys_def split: option.splits)

subsection \<open>Status classification\<close>

text \<open>
  C1 (as the code has it). The classifier applies its tests in order, first match wins:
  saturation 0 is idle whatever the thresholds; otherwise a saturation below
  \<open>under_saturated_max\<close> is under-saturated (every saturation other than 0 below it:
  those strictly between 0 and \<open>under_saturated_max\<close>, and the negative ones); otherwise
  a saturation of at most \<open>normal_max\<close> is normal; otherwise it is overloaded. The four
  conditions exclude one another and cover every saturation, so the label is always one
  of the four, and the result does not change when \<open>normal_min\<close> and
  \<open>over_saturated_min\<close> of the configuration are replaced by any other values.
\<close>

theorem get_status_boundaries:
  fixes self :: processor and cfg :: config and s a b :: real
  shows "(s = 0 \<longrightarrow> get_status self s = Idle)
       \<and> (s \<noteq> 0 \<and> s < under_saturated_max self \<longrightarrow> get_status self s = Under_saturated)
       \<and> (s \<noteq> 0 \<and> under_saturated_max self \<le> s \<and> s \<le> normal_max self
            \<longrightarrow> get_status self s = Normal)
       \<and> (s \<noteq> 0 \<and> under_saturated_max self \<le> s \<and> normal_max self < s
            \<longrightarrow> get_status self s = Overloaded)
       \<and> get_status self s \<in> {Idle, Under_saturated, Normal, Overloaded}
       \<and> get_status (init (cfg\<lparr>saturation_thresholds :=
              map_option (\<lambda>t. t\<lparr>th_normal_min := Some a, th_over_saturated_min := Some b\<rparr>)
                (saturation_thresholds cfg)\<rparr>)) s
           = get_status (init cfg) s"
proof -
  have label: "get_status self s \<in> {Idle, Under_saturated, Normal, Overloaded}"
    by (cases "get_status self s") simp_all
  have unused: "get_status (init (cfg\<lparr>saturation_thresholds :=
              map_option (\<lambda>t. t\<lparr>th_normal_min := Some a, th_over_saturated_min := Some b\<rparr>)
                (saturation_thresholds cfg)\<rparr>)) s
           = get_status (init cfg) s"
    by (cases "saturation_thresholds cfg")
       (simp_all add: get_status_def init_def Let_def dict_get2_def)
  show ?thesis
    using label unused by (simp add: get_status_def)
qed

text \<open>
  The default thresholds (90, 90, 110, 110): one saturation per label, and a negative
  saturation, which is under-saturated.
\<close>

theorem get_status_boundaries_witness:
  "get_status (init default_config) 0 = Idle
   \<and> get_status (init default_config) 50 = Under_saturated
   \<and> get_status (init default_config) (- 5) = Under_saturated
   \<and> get_status (init default_config) 90 = Normal
   \<and> get_status (init default_config) 110 = Normal
   \<and> get_status (init default_config) 111 = Overloaded"
proof -
  have u: "under_saturated_max (init default_config) = 90"
    and n: "normal_max (init default_config) = 110"
    by (simp_all add: init_def default_config_def thresholds_config_def Let_def
          dict_get2_def dict_get_def)
  show ?thesis
    using get_status_boundaries [of 0 "init default_config"]
          get_status_boundaries [of 50 "init default_config"]
          get_status_boundaries [of "- 5" "init default_config"]
          get_status_boundaries [of 90 "init default_config"]
          get_status_boundaries [of 110 "init default_config"]
          get_status_boundaries [of 111 "init default_config"]
    by (simp add: u n)
qed

text \<open>
  Read as four independent rules, the boundaries of C1 do not hold for every threshold
  configuration: with \<open>under_saturated_max = 90\<close> and \<open>normal_max = 50\<close> a saturation of
  70 exceeds \<open>normal_max\<close> and is classified under-saturated, not overloaded; with
  \<open>under_saturated_max = 0\<close> a saturation of 0 lies in
  \<open>[under_saturated_max, normal_max]\<close> and is classified idle, not normal.
\<close>

theorem get_status_boundaries_counterexample:
  "normal_max (init (thresholds_config 90 90 50 110)) < 70
   \<and> get_status (init (thresholds_config 90 90 50 110)) 70 = Under_saturated
   \<and> under_saturated_max (init (thresholds_config 0 0 110 110)) \<le> 0
   \<and> 0 \<le> normal_max (init (thresholds_config 0 0 110 110))
   \<and> get_status (init (thresholds_config 0 0 110 110)) 0 = Idle"
  by (simp add: get_status_def init_def thresholds_config_def Let_def dict_get2_def dict_get_def
        float_eval)

subsection \<open>Week window\<close>

lemma weekday_monday: "weekday (d - weekday d + 7 * j) = 0"
  unfolding weekday_def by presburger

lemma weekday_range: "0 \<le> weekday d \<and> weekday d \<le> 6"
  unfolding weekday_def by presburger

lemma monday_in_range: "valid_date d \<Longrightarrow> 1 \<le> d - weekday d \<and> d - weekday d \<le> MAXORDINAL"
  unfolding weekday_def valid_date_def MAXORDINAL_def by presburger

text \<open>
  C3 (as the code has it). For every base date \<open>bd\<close> and every week offset \<open>k\<close> in
  \<open>{0, 1, 2}\<close>: when the target Sunday \<open>bd - weekday bd + 7 * k + 6\<close> is not after
  \<^verbatim>\<open>date.max\<close> (9999-12-31), the function returns the pair (start, end) with
  start = \<open>bd - weekday bd + 7 * k\<close> and end = start + 6; otherwise the date addition
  raises \<^verbatim>\<open>OverflowError\<close>. The start is a Monday in either case. The function is a pure
  function of its two arguments.
\<close>

theorem get_week_range_window:
  assumes "valid_date bd" and "k \<in> {0, 1, 2}"
  shows "get_week_range bd k =
           (if bd - weekday bd + 7 * k + 6 \<le> MAXORDINAL
            then Inr (bd - weekday bd + 7 * k, bd - weekday bd + 7 * k + 6)
            else Inl OverflowError)
         \<and> weekday (bd - weekday bd + 7 * k) = 0"
proof -
  have wd: "0 \<le> weekday bd" "weekday bd \<le> 6"
    using weekday_range [of bd] by simp_all
  have mon: "1 \<le> bd - weekday bd" "bd - weekday bd \<le> MAXORDINAL"
    using monday_in_range [OF assms(1)] by simp_all
  have off: "0 \<le> k" "k \<le> 2"
    using assms(2) by auto
  have bk: "timedelta (weekday bd) = Inr (weekday bd)"
    using wd by (simp add: timedelta_def)
  have weeks: "timedelta (7 * k) = Inr (7 * k)"
    using off by (simp add: timedelta_def)
  have six: "timedelta 6 = Inr 6"
    by (simp add: timedelta_def)
  have cur: "date_add bd (- weekday bd) = Inr (bd - weekday bd)"
    using mon by (simp add: date_add_def Let_def)
  show ?thesis
    using mon off
    by (auto simp: get_week_range_def bind_result_def bk weeks six cur date_add_def Let_def
          weekday_monday MAXORDINAL_def)
qed

text \<open>Base date 2025-11-17 (ordinal 739572, a Monday), next week: 2025-11-24 to 2025-11-30.\<close>

theorem get_week_range_window_witness:
  "valid_date 739572 \<and> (1::int) \<in> {0, 1, 2}
   \<and> get_week_range 739572 1 = Inr (739579, 739585) \<and> weekday 739579 = 0"
proof -
  have v: "valid_date 739572" by (simp add: valid_date_def MAXORDINAL_def)
  have o: "(1::int) \<in> {0, 1, 2}" by simp
  have w: "weekday 739572 = 0" by (simp add: weekday_def)
  show ?thesis
    using get_week_range_window [OF v o] v by (simp add: w MAXORDINAL_def)
qed

text \<open>
  The function is not total: for the base date 9999-12-31 (a Friday) the Sunday of the
  current week is after \<^verbatim>\<open>date.max\<close>.
\<close>

theorem get_week_range_total_counterexample:
  "valid_date 3652059 \<and> get_week_range 3652059 0 = Inl OverflowError"
  by (simp add: valid_date_def MAXORDINAL_def get_week_range_def bind_result_def timedelta_def
        date_add_def weekday_def Let_def)

subsection \<open>Structural failures\<close>

text \<open>
  C8. For every input table that lacks the member column or has no rows, the calculation
  does not return a result: it ends in an error. When the three week windows exist, the
  error is the \<^verbatim>\<open>KeyError\<close> for the member column, raised by the first statement of
  the first iteration, before any hours of a row are read (whatever the cells hold); for
  a table without rows no iteration runs and the error is the \<^verbatim>\<open>KeyError\<close> for the sort
  column of the empty result frame. (The only other error is the \<^verbatim>\<open>OverflowError\<close> of a
  week window, which precedes the loop.)
\<close>

theorem structural_input_error:
  assumes "member_col \<notin> set (columns df) \<or> rows df = []"
  shows "(\<exists>e. calculate_workload strptime sort_values self df today pm = Inl e)
       \<and> (\<forall>cur nxt nnx.
             get_week_range today 0 = Inr cur \<and> get_week_range today 1 = Inr nxt
             \<and> get_week_range today 2 = Inr nnx \<longrightarrow>
             calculate_workload strptime sort_values self df today pm
               = Inl (KeyError (if rows df = [] then next_week_saturation_col
                                else member_col)))"
proof -
  have main: "calculate_workload strptime sort_values self df today pm
               = Inl (KeyError (if rows df = [] then next_week_saturation_col
                                else member_col))"
    if w: "get_week_range today 0 = Inr cur" "get_week_range today 1 = Inr nxt"
          "get_week_range today 2 = Inr nnx" for cur nxt nnx
  proof (cases "rows df")
    case Nil
    then show ?thesis
      by (simp add: calculate_workload_def w Let_def)
  next
    case (Cons r rs)
    with assms have "member_col \<notin> set (columns df)" by simp
    then show ?thesis
      using Cons by (simp add: calculate_workload_def w Let_def member_calc_missing)
  qed
  have ex: "\<exists>e. calculate_workload strptime sort_values self df today pm = Inl e"
  proof (cases "get_week_range today 0")
    case (Inl e)
    then show ?thesis by (simp add: calculate_workload_def)
  next
    case c: (Inr cur)
    show ?thesis
    proof (cases "get_week_range today 1")
      case (Inl e)
      then show ?thesis by (simp add: calculate_workload_def c)
    next
      case n: (Inr nxt)
      show ?thesis
      proof (cases "get_week_range today 2")
        case (Inl e)
        then show ?thesis by (simp add: calculate_workload_def c n)
      next
        case (Inr nnx)
        then show ?thesis using main [OF c n] by simp
      qed
    qed
  qed
  show ?thesis
    using ex main by blast
qed

text \<open>The table without rows, and the table without member column whose cell is a string.\<close>

theorem structural_input_error_witness:
  "rows empty_df = []
   \<and> calculate_workload example_strptime example_sort (init scenario_config) empty_df 739572 []
       = Inl (KeyError next_week_saturation_col)
   \<and> member_col \<notin> set (columns no_member_df)
   \<and> calculate_workload example_strptime example_sort (init scenario_config) no_member_df 739572 []
       = Inl (KeyError member_col)"
proof -
  have e: "rows empty_df = []"
    by (simp add: empty_df_def)
  have m: "member_col \<notin> set (columns no_member_df)"
    by (simp add: no_member_df_def member_col_def)
  have r: "rows no_member_df \<noteq> []"
    by (simp add: no_member_df_def)
  show ?thesis
    using structural_input_error [of empty_df example_strptime example_sort "init scenario_config"
            739572 "[]"]
          structural_input_error [of no_member_df example_strptime example_sort "init scenario_config"
            739572 "[]"]
          e m r
    by (simp add: example_weeks)
qed

subsection \<open>Overhead hours\<close>

text \<open>
  C6. For every member row whose name and whose hours of the three weeks can be read, and
  the processor built by \<^verbatim>\<open>__init__\<close> from any configuration, the loop body returns, and
  the overhead of a week (the "other tasks" figure of the row) is, in terms of the
  configuration's own keys: the other-tasks hours (the weekly minutes, 92 when the key is
  absent, divided by 60) when other tasks are enabled (also when the key is absent), else
  0; plus the primary-responsibility hours (the standard hours, 40 when absent, times the
  weekly percentage, 0.5 when absent) exactly when primary responsibility is enabled
  (also when the key is absent) and the member is in the list of primary members, else
  plus 0. Division, product and sum are those of Python's floats. The value is the same
  for the three weeks, in the locals and in the stored row.
\<close>

theorem overhead_hours_flat:
  assumes "row_get cols row member_col = Inr name"
    and "project_hours_of cols row c1 = Inr p1"
    and "project_hours_of cols row c2 = Inr p2"
    and "project_hours_of cols row c3 = Inr p3"
  shows "\<exists>l. member_calc (init cfg) cols c1 c2 c3 pm row = Inr l
       \<and> member_name l = name
       \<and> other_tasks_of_week (current_week l) =
           fadd
             (if (case other_tasks cfg of None \<Rightarrow> True
                  | Some d \<Rightarrow> (case ot_enabled d of None \<Rightarrow> True | Some en \<Rightarrow> en))
              then fdiv (case other_tasks cfg of None \<Rightarrow> 92
                         | Some d \<Rightarrow> (case ot_weekly_minutes_per_person d of
                                        None \<Rightarrow> 92 | Some minutes \<Rightarrow> minutes)) 60
              else 0)
             (if (case primary_responsibility cfg of None \<Rightarrow> True
                  | Some d \<Rightarrow> (case pr_enabled d of None \<Rightarrow> True | Some en \<Rightarrow> en))
                 \<and> name \<in> set pm
              then fmul (case standard_hours_per_week cfg of None \<Rightarrow> 40 | Some h \<Rightarrow> h)
                        (case primary_responsibility cfg of None \<Rightarrow> 1 / 2
                         | Some d \<Rightarrow> (case pr_weekly_percentage d of
                                        None \<Rightarrow> 1 / 2 | Some pct \<Rightarrow> pct))
              else 0)
       \<and> other_tasks_of_week (next_week l) = other_tasks_of_week (current_week l)
       \<and> other_tasks_of_week (next_next_week l) = other_tasks_of_week (current_week l)
       \<and> entry_other_tasks (row_current_week (result_dict (init cfg) l))
           = other_tasks_of_week (current_week l)
       \<and> entry_other_tasks (row_next_week (result_dict (init cfg) l))
           = other_tasks_of_week (current_week l)
       \<and> entry_other_tasks (row_next_next_week (result_dict (init cfg) l))
           = other_tasks_of_week (current_week l)"
proof -
  let ?oe = "case other_tasks cfg of None \<Rightarrow> True
             | Some d \<Rightarrow> (case ot_enabled d of None \<Rightarrow> True | Some en \<Rightarrow> en)"
  let ?om = "case other_tasks cfg of None \<Rightarrow> 92
             | Some d \<Rightarrow> (case ot_weekly_minutes_per_person d of
                            None \<Rightarrow> 92 | Some minutes \<Rightarrow> minutes)"
  let ?pe = "case primary_responsibility cfg of None \<Rightarrow> True
             | Some d \<Rightarrow> (case pr_enabled d of None \<Rightarrow> True | Some en \<Rightarrow> en)"
  let ?pp = "case primary_responsibility cfg of None \<Rightarrow> 1 / 2
             | Some d \<Rightarrow> (case pr_weekly_percentage d of None \<Rightarrow> 1 / 2 | Some pct \<Rightarrow> pct)"
  let ?sh = "case standard_hours_per_week cfg of None \<Rightarrow> 40 | Some h \<Rightarrow> h"
  obtain l where a: "member_calc (init cfg) cols c1 c2 c3 pm row = Inr l"
    using member_calc_total [OF assms] by blast
  note m = member_calc_Inr [OF a]
  have oth: "other_tasks_hours (init cfg) = (if ?oe then fdiv ?om 60 else 0)"
    by (simp add: init_def Let_def dict_get_def dict_get2_def split: option.splits)
  have prh: "primary_responsibility_hours (init cfg) = (if ?pe then fmul ?sh ?pp else 0)"
    by (simp add: init_def Let_def dict_get_def dict_get2_def split: option.splits)
  have nm: "member_name l = name"
    using m assms(1) by simp
  have b1: "week_block (init cfg) cols row c1 (primary_hours l) = Inr (current_week l)"
    and b2: "week_block (init cfg) cols row c2 (primary_hours l) = Inr (next_week l)"
    and b3: "week_block (init cfg) cols row c3 (primary_hours l) = Inr (next_next_week l)"
    using m by blast+
  have w1: "other_tasks_of_week (current_week l)
              = fadd (other_tasks_hours (init cfg)) (primary_hours l)"
    using week_block_Inr [OF b1] by simp
  have w2: "other_tasks_of_week (next_week l)
              = fadd (other_tasks_hours (init cfg)) (primary_hours l)"
    using week_block_Inr [OF b2] by simp
  have w3: "other_tasks_of_week (next_next_week l)
              = fadd (other_tasks_hours (init cfg)) (primary_hours l)"
    using week_block_Inr [OF b3] by simp
  have ph: "primary_hours l =
      (if name \<in> set pm then primary_responsibility_hours (init cfg) else 0)"
    using m nm by simp
  have e1: "entry_other_tasks (row_current_week (result_dict (init cfg) l))
              = other_tasks_of_week (current_week l)"
    and e2: "entry_other_tasks (row_next_week (result_dict (init cfg) l))
              = other_tasks_of_week (next_week l)"
    and e3: "entry_other_tasks (row_next_next_week (result_dict (init cfg) l))
              = other_tasks_of_week (next_next_week l)"
    by (simp_all add: result_dict_def week_entry_of_def)
  have o1: "other_tasks_of_week (current_week l) =
           fadd (if ?oe then fdiv ?om 60 else 0)
                (if ?pe \<and> name \<in> set pm then fmul ?sh ?pp else 0)"
    unfolding w1 ph oth prh by simp
  have "member_calc (init cfg) cols c1 c2 c3 pm row = Inr l
       \<and> member_name l = name
       \<and> other_tasks_of_week (current_week l) =
           fadd (if ?oe then fdiv ?om 60 else 0)
                (if ?pe \<and> name \<in> set pm then fmul ?sh ?pp else 0)
       \<and> other_tasks_of_week (next_week l) = other_tasks_of_week (current_week l)
       \<and> other_tasks_of_week (next_next_week l) = other_tasks_of_week (current_week l)
       \<and> entry_other_tasks (row_current_week (result_dict (init cfg) l))
           = other_tasks_of_week (current_week l)
       \<and> entry_other_tasks (row_next_week (result_dict (init cfg) l))
           = other_tasks_of_week (current_week l)
       \<and> entry_other_tasks (row_next_next_week (result_dict (init cfg) l))
           = other_tasks_of_week (current_week l)"
    unfolding e1 e2 e3 using a nm o1 w1 w2 w3 by simp
  then show ?thesis ..
qed

text \<open>
  Member A of the example table (90 minutes of other tasks, 40 standard hours, 50 percent):
  as a primary member 1.5 + 20 hours, otherwise 1.5 hours; with the other tasks switched
  off 20 hours as a primary member and none otherwise; with the primary responsibility
  switched off 1.5 hours also as a primary member.
\<close>

theorem overhead_hours_flat_witness:
  "(\<exists>l. member_calc (init scenario_config) example_columns [''2025-11-17''] [''2025-11-24'']
          [''2025-12-01''] [Str ''A''] example_row_A = Inr l
        \<and> other_tasks_of_week (current_week l) = 43 / 2
        \<and> other_tasks_of_week (next_week l) = 43 / 2
        \<and> other_tasks_of_week (next_next_week l) = 43 / 2)
   \<and> (\<exists>l. member_calc (init scenario_config) example_columns [''2025-11-17'']
          [''2025-11-24''] [''2025-12-01''] [] example_row_A = Inr l
        \<and> other_tasks_of_week (current_week l) = 3 / 2
        \<and> other_tasks_of_week (next_week l) = 3 / 2
        \<and> other_tasks_of_week (next_next_week l) = 3 / 2)
   \<and> (\<exists>l. member_calc (init no_overhead_config) example_columns [''2025-11-17'']
          [''2025-11-24''] [''2025-12-01''] [Str ''A''] example_row_A = Inr l
        \<and> other_tasks_of_week (current_week l) = 20
        \<and> other_tasks_of_week (next_week l) = 20
        \<and> other_tasks_of_week (next_next_week l) = 20)
   \<and> (\<exists>l. member_calc (init no_overhead_config) example_columns [''2025-11-17'']
          [''2025-11-24''] [''2025-12-01''] [] example_row_A = Inr l
        \<and> other_tasks_of_week (current_week l) = 0
        \<and> other_tasks_of_week (next_week l) = 0
        \<and> other_tasks_of_week (next_next_week l) = 0)
   \<and> (\<exists>l. member_calc (init no_primary_config) example_columns [''2025-11-17'']
          [''2025-11-24''] [''2025-12-01''] [Str ''A''] example_row_A = Inr l
        \<and> other_tasks_of_week (current_week l) = 3 / 2
        \<and> other_tasks_of_week (next_week l) = 3 / 2
        \<and> other_tasks_of_week (next_next_week l) = 3 / 2)"
proof -
  have rg: "row_get example_columns example_row_A member_col = Inr (Str ''A'')"
    and p1: "project_hours_of example_columns example_row_A [''2025-11-17''] = Inr 40"
    and p2: "project_hours_of example_columns example_row_A [''2025-11-24''] = Inr 20"
    and p3: "project_hours_of example_columns example_row_A [''2025-12-01''] = Inr 0"
    by (simp_all add: example_row_A_def example_row_get example_project_hours)
  note t = overhead_hours_flat [OF rg p1 p2 p3]
  have k1: "other_tasks scenario_config
              = Some \<lparr> ot_enabled = Some True, ot_weekly_minutes_per_person = Some 90 \<rparr>"
    "primary_responsibility scenario_config
       = Some \<lparr> pr_enabled = Some True, pr_weekly_percentage = Some (1 / 2) \<rparr>"
    "standard_hours_per_week scenario_config = Some 40"
    by (simp_all add: scenario_config_def default_config_def thresholds_config_def)
  have k2: "other_tasks no_overhead_config
              = Some \<lparr> ot_enabled = Some False, ot_weekly_minutes_per_person = Some 90 \<rparr>"
    "primary_responsibility no_overhead_config
       = Some \<lparr> pr_enabled = Some True, pr_weekly_percentage = Some (1 / 2) \<rparr>"
    "standard_hours_per_week no_overhead_config = Some 40"
    by (simp_all add: no_overhead_config_def scenario_config_def default_config_def
          thresholds_config_def)
  have k3: "other_tasks no_primary_config
              = Some \<lparr> ot_enabled = Some True, ot_weekly_minutes_per_person = Some 90 \<rparr>"
    "primary_responsibility no_primary_config
       = Some \<lparr> pr_enabled = Some False, pr_weekly_percentage = Some (1 / 2) \<rparr>"
    "standard_hours_per_week no_primary_config = Some 40"
    by (simp_all add: no_primary_config_def scenario_config_def default_config_def
          thresholds_config_def)
  have c1: "\<exists>l. member_calc (init scenario_config) example_columns [''2025-11-17'']
          [''2025-11-24''] [''2025-12-01''] [Str ''A''] example_row_A = Inr l
        \<and> other_tasks_of_week (current_week l) = 43 / 2
        \<and> other_tasks_of_week (next_week l) = 43 / 2
        \<and> other_tasks_of_week (next_next_week l) = 43 / 2"
    using t [where cfg = scenario_config and pm = "[Str ''A'']"]
    by (auto simp: k1 float_eval)
  have c2: "\<exists>l. member_calc (init scenario_config) example_columns [''2025-11-17'']
          [''2025-11-24''] [''2025-12-01''] [] example_row_A = Inr l
        \<and> other_tasks_of_week (current_week l) = 3 / 2
        \<and> other_tasks_of_week (next_week l) = 3 / 2
        \<and> other_tasks_of_week (next_next_week l) = 3 / 2"
    using t [where cfg = scenario_config and pm = "[]"]
    by (auto simp: k1 float_eval)
  have c3: "\<exists>l. member_calc (init no_overhead_config) example_columns [''2025-11-17'']
          [''2025-11-24''] [''2025-12-01''] [Str ''A''] example_row_A = Inr l
        \<and> other_tasks_of_week (current_week l) = 20
        \<and> other_tasks_of_week (next_week l) = 20
        \<and> other_tasks_of_week (next_next_week l) = 20"
    using t [where cfg = no_overhead_config and pm = "[Str ''A'']"]
    by (auto simp: k2 float_eval)
  have c4: "\<exists>l. member_calc (init no_overhead_config) example_columns [''2025-11-17'']
          [''2025-11-24''] [''2025-12-01''] [] example_row_A = Inr l
        \<and> other_tasks_of_week (current_week l) = 0
        \<and> other_tasks_of_week (next_week l) = 0
        \<and> other_tasks_of_week (next_next_week l) = 0"
    using t [where cfg = no_overhead_config and pm = "[]"]
    by (auto simp: k2 float_eval)
  have c5: "\<exists>l. member_calc (init no_primary_config) example_columns [''2025-11-17'']
          [''2025-11-24''] [''2025-12-01''] [Str ''A''] example_row_A = Inr l
        \<and> other_tasks_of_week (current_week l) = 3 / 2
        \<and> other_tasks_of_week (next_week l) = 3 / 2
        \<and> other_tasks_of_week (next_next_week l) = 3 / 2"
    using t [where cfg = no_primary_config and pm = "[Str ''A'']"]
    by (auto simp: k3 float_eval)
  show ?thesis
    using c1 c2 c3 c4 c5 by blast
qed

subsection \<open>Change and change rate\<close>



subsection \<open>Standard hours that are not positive\<close>

text \<open>
  C10. When the standard hours of the processor are zero or negative, the loop body never
  ends in a division error, and for every member whose row is computed the saturation of
  each of the three weeks is 0, in the locals and in the stored row, while the project
  hours are the sums of the week's cells, the totals are project hours plus overhead, and
  the changes and change rates are those of the usual computation on these totals.
\<close>

theorem non_positive_standard_hours:
  assumes "standard_hours self \<le> 0"
  shows "member_calc self cols c1 c2 c3 pm row \<noteq> Inl ZeroDivisionError
       \<and> (\<forall>l. member_calc self cols c1 c2 c3 pm row = Inr l \<longrightarrow>
             saturation (current_week l) = 0 \<and> saturation (next_week l) = 0
             \<and> saturation (next_next_week l) = 0
             \<and> entry_saturation (row_current_week (result_dict self l)) = 0
             \<and> entry_saturation (row_next_week (result_dict self l)) = 0
             \<and> entry_saturation (row_next_next_week (result_dict self l)) = 0
             \<and> project_hours_of cols row c1 = Inr (project_hours (current_week l))
             \<and> project_hours_of cols row c2 = Inr (project_hours (next_week l))
             \<and> project_hours_of cols row c3 = Inr (project_hours (next_next_week l))
             \<and> total_hours (current_week l)
                 = fadd (project_hours (current_week l))
                     (fadd (other_tasks_hours self) (primary_hours l))
             \<and> total_hours (next_week l)
                 = fadd (project_hours (next_week l))
                     (fadd (other_tasks_hours self) (primary_hours l))
             \<and> total_hours (next_next_week l)
                 = fadd (project_hours (next_next_week l))
                     (fadd (other_tasks_hours self) (primary_hours l))
             \<and> change_block (total_hours (current_week l)) (total_hours (next_week l))
                 = Inr (next_week_change l, next_week_change_rate l)
             \<and> change_block (total_hours (next_week l)) (total_hours (next_next_week l))
                 = Inr (next_next_week_change l, next_next_week_change_rate l))"
proof (intro conjI allI impI)
  show "member_calc self cols c1 c2 c3 pm row \<noteq> Inl ZeroDivisionError"
    by (rule member_calc_no_zde)
next
  fix l
  assume a: "member_calc self cols c1 c2 c3 pm row = Inr l"
  note m = member_calc_Inr [OF a]
  have b1: "week_block self cols row c1 (primary_hours l) = Inr (current_week l)"
    and b2: "week_block self cols row c2 (primary_hours l) = Inr (next_week l)"
    and b3: "week_block self cols row c3 (primary_hours l) = Inr (next_next_week l)"
    using m by blast+
  note w1 = week_block_Inr [OF b1]
  note w2 = week_block_Inr [OF b2]
  note w3 = week_block_Inr [OF b3]
  show "saturation (current_week l) = 0" using w1 assms by simp
  show "saturation (next_week l) = 0" using w2 assms by simp
  show "saturation (next_next_week l) = 0" using w3 assms by simp
  show "entry_saturation (row_current_week (result_dict self l)) = 0"
    using w1 assms by (simp add: result_dict_def week_entry_of_def)
  show "entry_saturation (row_next_week (result_dict self l)) = 0"
    using w2 assms by (simp add: result_dict_def week_entry_of_def)
  show "entry_saturation (row_next_next_week (result_dict self l)) = 0"
    using w3 assms by (simp add: result_dict_def week_entry_of_def)
  show "project_hours_of cols row c1 = Inr (project_hours (current_week l))"
    using w1 by simp
  show "project_hours_of cols row c2 = Inr (project_hours (next_week l))"
    using w2 by simp
  show "project_hours_of cols row c3 = Inr (project_hours (next_next_week l))"
    using w3 by simp
  show "total_hours (current_week l)
          = fadd (project_hours (current_week l))
              (fadd (other_tasks_hours self) (primary_hours l))"
    using w1 by simp
  show "total_hours (next_week l)
          = fadd (project_hours (next_week l))
              (fadd (other_tasks_hours self) (primary_hours l))"
    using w2 by simp
  show "total_hours (next_next_week l)
          = fadd (project_hours (next_next_week l))
              (fadd (other_tasks_hours self) (primary_hours l))"
    using w3 by simp
  show "change_block (total_hours (current_week l)) (total_hours (next_week l))
          = Inr (next_week_change l, next_week_change_rate l)"
    using m by simp
  show "change_block (total_hours (next_week l)) (total_hours (next_next_week l))
          = Inr (next_next_week_change l, next_next_week_change_rate l)"
    using m by simp
qed

text \<open>
  Member A (40, 20 and no hours) under the scenario configuration with 0 standard hours:
  the row is computed, the saturations are 0, the totals are 41.5, 21.5 and 1.5 hours and
  the changes -20 and -20.
\<close>

theorem non_positive_standard_hours_witness:
  "standard_hours (init zero_hours_config) \<le> 0
   \<and> (\<exists>l. member_calc (init zero_hours_config) example_columns [''2025-11-17'']
            [''2025-11-24''] [''2025-12-01''] [] example_row_A = Inr l
          \<and> saturation (current_week l) = 0
          \<and> saturation (next_week l) = 0
          \<and> saturation (next_next_week l) = 0
          \<and> entry_saturation (row_current_week (result_dict (init zero_hours_config) l)) = 0
          \<and> entry_saturation (row_next_week (result_dict (init zero_hours_config) l)) = 0
          \<and> entry_saturation (row_next_next_week (result_dict (init zero_hours_config) l)) = 0
          \<and> total_hours (current_week l) = 83 / 2
          \<and> total_hours (next_week l) = 43 / 2
          \<and> total_hours (next_next_week l) = 3 / 2
          \<and> next_week_change l = - 20
          \<and> next_next_week_change l = - 20)"
proof -
  have h: "standard_hours (init zero_hours_config) \<le> 0"
    by (simp add: zero_hours_self)
  have rg: "row_get example_columns example_row_A member_col = Inr (Str ''A'')"
    and p1: "project_hours_of example_columns example_row_A [''2025-11-17''] = Inr 40"
    and p2: "project_hours_of example_columns example_row_A [''2025-11-24''] = Inr 20"
    and p3: "project_hours_of example_columns example_row_A [''2025-12-01''] = Inr 0"
    by (simp_all add: example_row_A_def example_row_get example_project_hours)
  obtain l where a: "member_calc (init zero_hours_config) example_columns [''2025-11-17'']
            [''2025-11-24''] [''2025-12-01''] [] example_row_A = Inr l"
    using member_calc_total [OF rg p1 p2 p3] by blast
  have ph: "primary_hours l = 0"
    using member_calc_Inr [OF a] by simp
  have oh: "other_tasks_hours (init zero_hours_config) = 3 / 2"
    by (simp add: zero_hours_self)
  note t = non_positive_standard_hours [OF h, of example_columns "[''2025-11-17'']"
            "[''2025-11-24'']" "[''2025-12-01'']" "[]" example_row_A]
  have s: "saturation (current_week l) = 0 \<and> saturation (next_week l) = 0
        \<and> saturation (next_next_week l) = 0
        \<and> entry_saturation (row_current_week (result_dict (init zero_hours_config) l)) = 0
        \<and> entry_saturation (row_next_week (result_dict (init zero_hours_config) l)) = 0
        \<and> entry_saturation (row_next_next_week (result_dict (init zero_hours_config) l)) = 0"
    using t a by simp
  have q1: "project_hours (current_week l) = 40"
    and q2: "project_hours (next_week l) = 20"
    and q3: "project_hours (next_next_week l) = 0"
    using t a p1 p2 p3 by simp_all
  have t1: "total_hours (current_week l) = 83 / 2"
    and t2: "total_hours (next_week l) = 43 / 2"
    and t3: "total_hours (next_next_week l) = 3 / 2"
    using t a by (simp_all add: q1 q2 q3 ph oh float_eval)
  have c1: "change_block (total_hours (current_week l)) (total_hours (next_week l))
              = Inr (next_week_change l, next_week_change_rate l)"
    and c2: "change_block (total_hours (next_week l)) (total_hours (next_next_week l))
              = Inr (next_next_week_change l, next_next_week_change_rate l)"
    using t a by blast+
  have n1: "next_week_change l = - 20"
    using c1 unfolding t1 t2 by (simp add: change_block_eq float_eval)
  have n2: "next_next_week_change l = - 20"
    using c2 unfolding t2 t3 by (simp add: change_block_eq float_eval)
  show ?thesis
    using h a s t1 t2 t3 n1 n2 by blast
qed

subsection \<open>Monotonicity in the project hours\<close>

text \<open>
  C7. For a fixed processor (standard hours, other tasks, thresholds) and a fixed
  primary-responsibility share, two weeks computed by the code with project hours
  \<open>p1 \<le> p2\<close>: the saturation of the second is not below that of the first, neither
  computed nor stored; and when the first is classified overloaded so is the second,
  provided the first total is not negative (hours and overhead are not), or
  \<open>normal_max\<close> is not negative, or the standard hours are not positive.
\<close>

theorem saturation_monotone:
  assumes "week_block self cols1 row1 wc1 ph = Inr w1"
    and "week_block self cols2 row2 wc2 ph = Inr w2"
    and "project_hours w1 \<le> project_hours w2"
  shows "saturation w1 \<le> saturation w2
       \<and> entry_saturation (week_entry_of self w1) \<le> entry_saturation (week_entry_of self w2)
       \<and> (0 \<le> total_hours w1 \<or> 0 \<le> normal_max self \<or> standard_hours self \<le> 0 \<longrightarrow>
            entry_status (week_entry_of self w1) = Overloaded \<longrightarrow>
            entry_status (week_entry_of self w2) = Overloaded)"
proof -
  note a = week_block_Inr [OF assms(1)]
  note b = week_block_Inr [OF assms(2)]
  have ot: "other_tasks_of_week w2 = other_tasks_of_week w1"
    using a b by simp
  have tot: "total_hours w1 \<le> total_hours w2"
    using a b assms(3) by (simp add: ot fadd_mono)
  have sat: "saturation w1 \<le> saturation w2"
    using a b tot by (simp add: fdiv_mono fmul_100_mono)
  have nonneg: "0 \<le> saturation w1" if "0 \<le> total_hours w1"
  proof (cases "0 < standard_hours self")
    case True
    have "0 \<le> total_hours w1 / standard_hours self"
      using that True by simp
    then have "0 \<le> fdiv (total_hours w1) (standard_hours self)"
      unfolding fdiv_def by (rule fl_nonneg)
    then have "0 \<le> fmul (fdiv (total_hours w1) (standard_hours self)) 100"
      unfolding fmul_def by (intro fl_nonneg) simp
    then show ?thesis
      using a True by simp
  next
    case False
    then show ?thesis
      using a by simp
  qed
  have zero: "saturation w1 = 0" if "standard_hours self \<le> 0"
    using a that by simp
  have st: "get_status self (saturation w2) = Overloaded"
    if "0 \<le> total_hours w1 \<or> 0 \<le> normal_max self \<or> standard_hours self \<le> 0"
      and "get_status self (saturation w1) = Overloaded"
    using that sat nonneg zero by (auto simp: get_status_def split: if_splits)
  show ?thesis
    using sat st py_round1_mono [OF sat] by (simp add: week_entry_of_def)
qed

text \<open>Members E (44 hours) and F (48 hours): saturations 113.75 and 123.75, both overloaded.\<close>

theorem saturation_monotone_witness:
  "week_block (init scenario_config) example_columns example_row_E [''2025-11-17''] 0
     = Inr example_week_E
   \<and> week_block (init scenario_config) example_columns example_row_F [''2025-11-17''] 0
     = Inr example_week_F
   \<and> project_hours example_week_E \<le> project_hours example_week_F
   \<and> 0 \<le> total_hours example_week_E
   \<and> saturation example_week_E \<le> saturation example_week_F
   \<and> entry_saturation (week_entry_of (init scenario_config) example_week_E)
       \<le> entry_saturation (week_entry_of (init scenario_config) example_week_F)
   \<and> entry_status (week_entry_of (init scenario_config) example_week_E) = Overloaded
   \<and> entry_status (week_entry_of (init scenario_config) example_week_F) = Overloaded"
proof -
  have qe: "fdiv (91 / 2) 40 = 5122844576133939 / 2 ^ 52"
    using fl_eval [of 0 "91 / 80"] by (simp add: fdiv_def pow2_def round_half_even_def Let_def)
  have se: "fmul (5122844576133939 / 2 ^ 52) 100 = 455 / 4"
    using fl_eval [of 6 "5122844576133939 / 2 ^ 52 * 100"]
    by (simp add: fmul_def pow2_def round_half_even_def Let_def)
  have qf: "fdiv (99 / 2) 40 = 5573204538870989 / 2 ^ 52"
    using fl_eval [of 0 "99 / 80"] by (simp add: fdiv_def pow2_def round_half_even_def Let_def)
  have sf: "fmul (5573204538870989 / 2 ^ 52) 100 = 495 / 4"
    using fl_eval [of 6 "5573204538870989 / 2 ^ 52 * 100"]
    by (simp add: fmul_def pow2_def round_half_even_def Let_def)
  have ot: "fadd (3 / 2) 0 = 3 / 2" "fadd 44 (3 / 2) = 91 / 2" "fadd 48 (3 / 2) = 99 / 2"
    by (simp_all add: float_eval)
  have we: "week_block (init scenario_config) example_columns example_row_E [''2025-11-17''] 0
              = Inr example_week_E"
  proof -
    have "week_block (init scenario_config) example_columns example_row_E [''2025-11-17''] 0
            = Inr \<lparr> project_hours = 44, other_tasks_of_week = fadd (3 / 2) 0,
                    total_hours = fadd 44 (fadd (3 / 2) 0),
                    saturation = fmul (fdiv (fadd 44 (fadd (3 / 2) 0)) 40) 100 \<rparr>"
      unfolding example_row_E_def week_block_eq [OF example_project_hours(1)]
      by (simp add: scenario_self)
    then show ?thesis
      by (simp only: ot qe se example_week_E_def)
  qed
  have wf: "week_block (init scenario_config) example_columns example_row_F [''2025-11-17''] 0
              = Inr example_week_F"
  proof -
    have "week_block (init scenario_config) example_columns example_row_F [''2025-11-17''] 0
            = Inr \<lparr> project_hours = 48, other_tasks_of_week = fadd (3 / 2) 0,
                    total_hours = fadd 48 (fadd (3 / 2) 0),
                    saturation = fmul (fdiv (fadd 48 (fadd (3 / 2) 0)) 40) 100 \<rparr>"
      unfolding example_row_F_def week_block_eq [OF example_project_hours(1)]
      by (simp add: scenario_self)
    then show ?thesis
      by (simp only: ot qf sf example_week_F_def)
  qed
  have p: "project_hours example_week_E \<le> project_hours example_week_F"
    by (simp add: example_week_E_def example_week_F_def)
  have t: "0 \<le> total_hours example_week_E"
    by (simp add: example_week_E_def)
  have e: "entry_status (week_entry_of (init scenario_config) example_week_E) = Overloaded"
    by (simp add: week_entry_of_def get_status_def scenario_self example_week_E_def)
  show ?thesis
    using saturation_monotone [OF we wf p] we wf p t e
    by simp
qed

subsection \<open>Saturation percentage\<close>



subsection \<open>Invalid configurations\<close>

text \<open>
  C9 (as the code has it). Every configuration that misses a required key, or whose
  standard hours are not positive or exceed 168, or that misses a threshold, or whose four
  thresholds are not in non-decreasing order, is rejected by the validator: it returns
  False together with a message. The processor itself does not validate: \<^verbatim>\<open>__init__\<close>
  takes the standard hours, the two thresholds it uses, the weekly minutes of other tasks
  and the weekly percentage of primary responsibility from the configuration as they are,
  and 40, 90, 110, 92 and 0.5 where a key is absent.
\<close>

theorem invalid_config_handling:
  assumes "standard_hours_per_week cfg = None \<or> other_tasks cfg = None
         \<or> saturation_thresholds cfg = None
         \<or> (\<exists>sh. standard_hours_per_week cfg = Some sh \<and> (sh \<le> 0 \<or> 168 < sh))
         \<or> (\<exists>t. saturation_thresholds cfg = Some t
                \<and> (th_under_saturated_max t = None \<or> th_normal_min t = None
                     \<or> th_normal_max t = None \<or> th_over_saturated_min t = None))
         \<or> (\<exists>t a b c d. saturation_thresholds cfg = Some t
                \<and> th_under_saturated_max t = Some a \<and> th_normal_min t = Some b
                \<and> th_normal_max t = Some c \<and> th_over_saturated_min t = Some d
                \<and> \<not> (a \<le> b \<and> b \<le> c \<and> c \<le> d))"
  shows "(\<exists>issue. validate_config cfg = (False, Some issue))
       \<and> standard_hours (init cfg)
           = (case standard_hours_per_week cfg of None \<Rightarrow> 40 | Some sh \<Rightarrow> sh)
       \<and> under_saturated_max (init cfg)
           = (case saturation_thresholds cfg of None \<Rightarrow> 90
              | Some t \<Rightarrow> (case th_under_saturated_max t of None \<Rightarrow> 90 | Some a \<Rightarrow> a))
       \<and> normal_max (init cfg)
           = (case saturation_thresholds cfg of None \<Rightarrow> 110
              | Some t \<Rightarrow> (case th_normal_max t of None \<Rightarrow> 110 | Some c \<Rightarrow> c))
       \<and> other_tasks_minutes (init cfg)
           = (case other_tasks cfg of None \<Rightarrow> 92
              | Some d \<Rightarrow> (case ot_weekly_minutes_per_person d of
                             None \<Rightarrow> 92 | Some minutes \<Rightarrow> minutes))
       \<and> primary_responsibility_percentage (init cfg)
           = (case primary_responsibility cfg of None \<Rightarrow> 1 / 2
              | Some d \<Rightarrow> (case pr_weekly_percentage d of None \<Rightarrow> 1 / 2 | Some pct \<Rightarrow> pct))"
proof -
  have rej: "\<exists>issue. validate_config cfg = (False, Some issue)"
  proof (cases "standard_hours_per_week cfg = None \<or> other_tasks cfg = None
         \<or> saturation_thresholds cfg = None")
    case True
    then show ?thesis by (auto simp: validate_config_def)
  next
    case False
    then obtain sh ot t where some: "standard_hours_per_week cfg = Some sh"
      "other_tasks cfg = Some ot" "saturation_thresholds cfg = Some t"
      by auto
    show ?thesis
    proof (cases "sh \<le> 0 \<or> 168 < sh")
      case True
      then show ?thesis
        by (auto simp: validate_config_def some dict_get_def Let_def)
    next
      case ok: False
      from assms False some ok
      consider (missing) "th_under_saturated_max t = None \<or> th_normal_min t = None
                     \<or> th_normal_max t = None \<or> th_over_saturated_min t = None"
        | (order) a b c d where "th_under_saturated_max t = Some a" "th_normal_min t = Some b"
            "th_normal_max t = Some c" "th_over_saturated_min t = Some d"
            "\<not> (a \<le> b \<and> b \<le> c \<and> c \<le> d)"
        by auto
      then show ?thesis
      proof cases
        case missing
        then obtain issue where "check_thresholds t required_threshold_keys = Some issue"
          using check_thresholds_missing by blast
        then show ?thesis
          using ok by (simp add: validate_config_def some dict_get_def Let_def)
      next
        case order
        show ?thesis
          using ok order(5)
          by (auto simp: validate_config_def some dict_get_def Let_def
                check_thresholds_all [OF order(1-4)] order(1-4))
      qed
    qed
  qed
  have dflt: "standard_hours (init cfg)
           = (case standard_hours_per_week cfg of None \<Rightarrow> 40 | Some sh \<Rightarrow> sh)
       \<and> under_saturated_max (init cfg)
           = (case saturation_thresholds cfg of None \<Rightarrow> 90
              | Some t \<Rightarrow> (case th_under_saturated_max t of None \<Rightarrow> 90 | Some a \<Rightarrow> a))
       \<and> normal_max (init cfg)
           = (case saturation_thresholds cfg of None \<Rightarrow> 110
              | Some t \<Rightarrow> (case th_normal_max t of None \<Rightarrow> 110 | Some c \<Rightarrow> c))
       \<and> other_tasks_minutes (init cfg)
           = (case other_tasks cfg of None \<Rightarrow> 92
              | Some d \<Rightarrow> (case ot_weekly_minutes_per_person d of
                             None \<Rightarrow> 92 | Some minutes \<Rightarrow> minutes))
       \<and> primary_responsibility_percentage (init cfg)
           = (case primary_responsibility cfg of None \<Rightarrow> 1 / 2
              | Some d \<Rightarrow> (case pr_weekly_percentage d of None \<Rightarrow> 1 / 2 | Some pct \<Rightarrow> pct))"
    by (simp add: init_def Let_def dict_get_def dict_get2_def split: option.splits)
  show ?thesis
    using rej dflt by blast
qed

text \<open>The configuration without any key: rejected by the validator, defaults in the processor.\<close>

theorem invalid_config_handling_witness:
  "standard_hours_per_week empty_config = None
   \<and> fst (validate_config empty_config) = False
   \<and> snd (validate_config empty_config) \<noteq> None
   \<and> standard_hours (init empty_config) = 40
   \<and> under_saturated_max (init empty_config) = 90
   \<and> normal_max (init empty_config) = 110
   \<and> other_tasks_minutes (init empty_config) = 92
   \<and> primary_responsibility_percentage (init empty_config) = 1 / 2"
proof -
  have h: "standard_hours_per_week empty_config = None"
    "saturation_thresholds empty_config = None" "other_tasks empty_config = None"
    "primary_responsibility empty_config = None"
    by (simp_all add: empty_config_def)
  show ?thesis
    using invalid_config_handling [of empty_config] h by auto
qed

text \<open>
  The calculator does not reject a configuration the validator rejects: built from the
  configuration without any key, it computes member A's saturation with the default
  standard hours and overhead (40 hours of a project and 92 / 60 hours of other tasks
  against 40 standard hours: 103.83333333333333, stored as 103.8, normal).
\<close>

theorem calculator_accepts_invalid_config_counterexample:
  "validate_config empty_config = (False, Some (Missing_field ''standard_hours_per_week''))
   \<and> (case calculate_workload example_strptime example_sort (init empty_config)
              \<lparr> columns = example_columns, rows = [example_row_A] \<rparr> 739572 [] of
         Inl e \<Rightarrow> False
       | Inr res \<Rightarrow>
           map (\<lambda>r. (entry_saturation (row_current_week r), entry_status (row_current_week r)))
             (fst res) = [(fl (1038 / 10), Normal)])"
proof -
  have v: "validate_config empty_config
             = (False, Some (Missing_field ''standard_hours_per_week''))"
    by (simp add: validate_config_def empty_config_def)
  have dfl: "standard_hours (init empty_config) = 40"
    "other_tasks_hours (init empty_config) = fdiv 92 60"
    "under_saturated_max (init empty_config) = 90" "normal_max (init empty_config) = 110"
    by (simp_all add: init_def empty_config_def dict_get_def dict_get2_def Let_def)
  have rg: "row_get example_columns example_row_A member_col = Inr (Str ''A'')"
    and p1: "project_hours_of example_columns example_row_A [''2025-11-17''] = Inr 40"
    and p2: "project_hours_of example_columns example_row_A [''2025-11-24''] = Inr 20"
    and p3: "project_hours_of example_columns example_row_A [''2025-12-01''] = Inr 0"
    by (simp_all add: example_row_A_def example_row_get example_project_hours)
  obtain l where a: "member_calc (init empty_config) example_columns [''2025-11-17'']
                       [''2025-11-24''] [''2025-12-01''] [] example_row_A = Inr l"
    using member_calc_total [OF rg p1 p2 p3] by blast
  note m = member_calc_Inr [OF a]
  have ph: "primary_hours l = 0"
    using m by simp
  have b: "week_block (init empty_config) example_columns example_row_A [''2025-11-17'']
             (primary_hours l) = Inr (current_week l)"
    using m by blast
  have oh: "fdiv 92 60 = 6905519428634761 / 2 ^ 52"
    using fl_eval [of 0 "23 / 15"] by (simp add: fdiv_def pow2_def round_half_even_def Let_def)
  have o0: "fadd (6905519428634761 / 2 ^ 52) 0 = 6905519428634761 / 2 ^ 52"
    using fl_representable [of 6905519428634761 "- 52"] by (simp add: fadd_def pow2_def)
  have tt: "fadd 40 (6905519428634761 / 2 ^ 52) = 1461324254089489 / 2 ^ 45"
    using fl_eval [of 5 "40 + 6905519428634761 / 2 ^ 52"]
    by (simp add: fadd_def pow2_def round_half_even_def Let_def)
  have q: "fdiv (1461324254089489 / 2 ^ 45) 40 = 4676237613086365 / 2 ^ 52"
    using fl_eval [of 0 "1461324254089489 / 2 ^ 45 / 40"]
    by (simp add: fdiv_def pow2_def round_half_even_def Let_def)
  have s: "fmul (4676237613086365 / 2 ^ 52) 100 = 7306621270447445 / 2 ^ 46"
    using fl_eval [of 6 "4676237613086365 / 2 ^ 52 * 100"]
    by (simp add: fmul_def pow2_def round_half_even_def Let_def)
  have r: "py_round1 (7306621270447445 / 2 ^ 46) = fl (1038 / 10)"
    by (simp add: py_round1_def round_half_even_def Let_def)
  have st: "get_status (init empty_config) (7306621270447445 / 2 ^ 46) = Normal"
    by (simp add: get_status_def dfl)
  have "saturation (current_week l)
          = fmul (fdiv (fadd 40 (fadd (fdiv 92 60) 0)) 40) 100"
    using week_block_Inr [OF b] p1 by (simp add: dfl ph)
  then have sat: "saturation (current_week l) = 7306621270447445 / 2 ^ 46"
    by (simp only: oh o0 tt q s)
  have c: "calculate_workload example_strptime example_sort (init empty_config)
              \<lparr> columns = example_columns, rows = [example_row_A] \<rparr> 739572 []
           = Inr (example_sort [result_dict (init empty_config) l],
                  \<lparr> base_date = 739572, current_week_start = 739572,
                    current_week_end = 739578, next_week_start = 739579,
                    next_week_end = 739585, next_next_week_start = 739586,
                    next_next_week_end = 739592, current_week_days = 1, next_week_days = 1,
                    next_next_week_days = 1 \<rparr>)"
    by (simp add: calculate_workload_def example_weeks example_week_cols Let_def a)
  have e: "entry_saturation (row_current_week (result_dict (init empty_config) l))
             = fl (1038 / 10)"
    "entry_status (row_current_week (result_dict (init empty_config) l)) = Normal"
    by (simp_all only: result_dict_def week_entry_of_def sat r st result_row.simps
          week_entry.simps)
  show ?thesis
    unfolding c using v e by (simp add: example_sort_def)
qed

end
